theory Spec2Isabelle
  imports Complex_Main "HOL-Library.AList" "HOL-Library.Multiset" "HOL-Library.Log_Nat"
begin

section \<open>Python values\<close>

text \<open>
  The service (\<^verbatim>\<open>src/server/services/memory_service.py\<close>) works on loosely typed
  dictionaries handed back by the memory store. A value is one of the JSON-like Python
  values below. A \<^verbatim>\<open>dict\<close> is an association list in insertion order, with string keys;
  a \<^verbatim>\<open>float\<close> held by a record is a finite IEEE 754 double, written as the rational
  number it is equal to (\<open>is_double\<close> below says which rational numbers are doubles);
  the two zeros are one value, as they are for \<^verbatim>\<open>==\<close>.
\<close>

datatype pyval =
    PNone
  | PBool bool
  | PInt int
  | PFloat rat
  | PStr string
  | PList "pyval list"
  | PDict "(string \<times> pyval) list"

type_synonym pydict = "(string \<times> pyval) list"

text \<open>Python's truth value of an object (\<^verbatim>\<open>if x\<close>, \<^verbatim>\<open>not x\<close>, \<^verbatim>\<open>x or y\<close>).\<close>

fun truthy :: "pyval \<Rightarrow> bool" where
  "truthy PNone = False"
| "truthy (PBool b) = b"
| "truthy (PInt i) = (i \<noteq> 0)"
| "truthy (PFloat r) = (r \<noteq> 0)"
| "truthy (PStr s) = (s \<noteq> [])"
| "truthy (PList xs) = (xs \<noteq> [])"
| "truthy (PDict d) = (d \<noteq> [])"

text \<open>\<^verbatim>\<open>a or b\<close>: the first operand when it is truthy, else the second.\<close>

definition py_or :: "pyval \<Rightarrow> pyval \<Rightarrow> pyval" where
  "py_or a b = (if truthy a then a else b)"

text \<open>\<^verbatim>\<open>d.get(k)\<close>, \<^verbatim>\<open>d.get(k, default)\<close>, \<^verbatim>\<open>k in d\<close> and \<^verbatim>\<open>d[k] = v\<close> on a dict.\<close>

definition dict_get :: "pydict \<Rightarrow> string \<Rightarrow> pyval" where
  "dict_get d k = (case map_of d k of None \<Rightarrow> PNone | Some v \<Rightarrow> v)"

definition dict_get_default :: "pydict \<Rightarrow> string \<Rightarrow> pyval \<Rightarrow> pyval" where
  "dict_get_default d k dflt = (case map_of d k of None \<Rightarrow> dflt | Some v \<Rightarrow> v)"

definition dict_has :: "pydict \<Rightarrow> string \<Rightarrow> bool" where
  "dict_has d k = (map_of d k \<noteq> None)"

definition dict_set :: "string \<Rightarrow> pyval \<Rightarrow> pydict \<Rightarrow> pydict" where
  "dict_set k v d = AList.update k v d"

text \<open>
  \<^verbatim>\<open>{**a, **b}\<close>: a new dict that receives the items of \<open>a\<close> and then the items of
  \<open>b\<close>, each stored as \<^verbatim>\<open>d[k] = v\<close> would: a key already there keeps its place and takes
  the new value, a new key goes to the end.
\<close>

definition dict_merge :: "pydict \<Rightarrow> pydict \<Rightarrow> pydict" where
  "dict_merge a b = fold (\<lambda>(k, v) d. dict_set k v d) (a @ b) []"

section \<open>Exceptions\<close>

text \<open>
  \<^verbatim>\<open>APIError(code, message, status_code)\<close> is the service's own exception; the members
  of \<^verbatim>\<open>ErrorCode\<close> are the ones this file raises. Every other exception is a Python
  exception with its kind and its \<^verbatim>\<open>str(e)\<close>. The message of an exception that the
  interpreter itself raises is given in substance only.
\<close>

datatype error_code =
    MEMORY_NOT_FOUND
  | MEMORY_CREATE_FAILED
  | MEMORY_UPDATE_FAILED
  | MEMORY_DELETE_FAILED
  | INTERNAL_ERROR

datatype pyerr_kind =
  ValueError | TypeError | AttributeError | OverflowError | ZeroDivisionError | OtherError

datatype exn =
    APIError error_code string nat
  | PyError pyerr_kind string

fun exn_str :: "exn \<Rightarrow> string" where
  "exn_str (APIError c m sc) = m"
| "exn_str (PyError k m) = m"

fun is_api_error :: "exn \<Rightarrow> bool" where
  "is_api_error (APIError c m sc) = True"
| "is_api_error (PyError k m) = False"

text \<open>
  Modelled from the spec: the error kinds of its section 7. \<^verbatim>\<open>ErrorCode\<close> lives in
  \<^verbatim>\<open>models/errors.py\<close>, which is not among the sources; the service raises five of its
  members and, for an invalid argument, a plain \<^verbatim>\<open>ValueError\<close>.
\<close>

datatype error_kind =
    NotFound
  | InvalidArgument
  | CreateFailed
  | UpdateFailed
  | DeleteFailed
  | InternalError
  | Other

fun kind_of :: "exn \<Rightarrow> error_kind" where
  "kind_of (APIError MEMORY_NOT_FOUND m sc) = NotFound"
| "kind_of (APIError MEMORY_CREATE_FAILED m sc) = CreateFailed"
| "kind_of (APIError MEMORY_UPDATE_FAILED m sc) = UpdateFailed"
| "kind_of (APIError MEMORY_DELETE_FAILED m sc) = DeleteFailed"
| "kind_of (APIError INTERNAL_ERROR m sc) = InternalError"
| "kind_of (PyError ValueError m) = InvalidArgument"
| "kind_of (PyError k m) = Other"

section \<open>Floating point\<close>

text \<open>
  Python's \<^verbatim>\<open>float\<close> is the IEEE 754 binary64 format: 53 significant bits, no bit
  below \<open>2\<close> to the power \<open>- 1074\<close>, and every operation rounded to the nearest
  double, a tie going to the double whose last bit is zero. \<open>round_half_even\<close> is that
  rounding to an integer, \<open>pow2 q\<close> is \<open>2\<close> to the power \<open>q\<close>, \<open>floor_log2 x\<close> is
  the exponent of the leading bit of a positive \<open>x\<close>, and \<open>round_double x\<close> rounds
  \<open>x\<close> to a multiple of the spacing that the doubles have at \<open>x\<close>, whatever the size
  of \<open>x\<close>.
\<close>

definition round_half_even :: "rat \<Rightarrow> int" where
  "round_half_even q =
     (let f = \<lfloor>q\<rfloor>; d = q - of_int f
      in if d < 1 / 2 then f else if 1 / 2 < d then f + 1 else if even f then f else f + 1)"

definition pow2 :: "int \<Rightarrow> rat" where
  "pow2 q = (if 0 \<le> q then 2 ^ nat q else 1 / 2 ^ nat (- q))"

definition floor_log2 :: "rat \<Rightarrow> int" where
  "floor_log2 x =
     (let k = bitlen (fst (quotient_of x)) - bitlen (snd (quotient_of x))
      in if pow2 k \<le> x then k else k - 1)"

definition round_double :: "rat \<Rightarrow> rat" where
  "round_double x =
     (if x = 0 then 0
      else (let q = max (floor_log2 \<bar>x\<bar> - 52) (- 1074)
            in of_int (round_half_even (x / pow2 q)) * pow2 q))"

text \<open>
  The largest double, and the rational numbers that are doubles: rounding leaves them as
  they are. The value of a float expression is the rounded result when that is within
  the range of the doubles, an infinity when it is beyond the largest double, or a NaN.
  \<open>flt_add\<close> is \<^verbatim>\<open>a + b\<close> and \<open>flt_lt\<close> is \<^verbatim>\<open>a < b\<close>.
\<close>

definition double_max :: rat where
  "double_max = (2 ^ 53 - 1) * 2 ^ 971"

definition is_double :: "rat \<Rightarrow> bool" where
  "is_double r = (round_double r = r \<and> \<bar>r\<bar> \<le> double_max)"

datatype flt = Finite rat | PosInf | NegInf | NaN

definition to_flt :: "rat \<Rightarrow> flt" where
  "to_flt x =
     (let y = round_double x
      in if double_max < y then PosInf else if y < - double_max then NegInf else Finite y)"

fun flt_add :: "flt \<Rightarrow> flt \<Rightarrow> flt" where
  "flt_add (Finite a) (Finite b) = to_flt (a + b)"
| "flt_add NaN y = NaN"
| "flt_add x NaN = NaN"
| "flt_add PosInf NegInf = NaN"
| "flt_add NegInf PosInf = NaN"
| "flt_add PosInf y = PosInf"
| "flt_add NegInf y = NegInf"
| "flt_add (Finite a) y = y"

fun flt_lt :: "flt \<Rightarrow> flt \<Rightarrow> bool" where
  "flt_lt (Finite a) (Finite b) = (a < b)"
| "flt_lt NaN y = False"
| "flt_lt x NaN = False"
| "flt_lt PosInf y = False"
| "flt_lt x NegInf = False"
| "flt_lt NegInf y = True"
| "flt_lt (Finite a) PosInf = True"

text \<open>
  \<^verbatim>\<open>float(i)\<close> of an int and \<^verbatim>\<open>a / b\<close> of two ints give the double nearest to the
  exact value and raise \<^verbatim>\<open>OverflowError\<close> when that is beyond the largest double;
  \<^verbatim>\<open>x / n\<close> of a float by an int converts the int first.
\<close>

definition int_to_float :: "int \<Rightarrow> exn + rat" where
  "int_to_float i =
     (let y = round_double (of_int i)
      in if double_max < \<bar>y\<bar>
         then Inl (PyError OverflowError ''int too large to convert to float'')
         else Inr y)"

definition int_truediv :: "int \<Rightarrow> int \<Rightarrow> exn + rat" where
  "int_truediv a b =
     (if b = 0 then Inl (PyError ZeroDivisionError ''division by zero'')
      else (let y = round_double (of_int a / of_int b)
            in if double_max < \<bar>y\<bar>
               then Inl (PyError OverflowError ''integer division result too large for a float'')
               else Inr y))"

definition float_truediv :: "flt \<Rightarrow> int \<Rightarrow> exn + flt" where
  "float_truediv a n =
     (case int_to_float n of
        Inl e \<Rightarrow> Inl e
      | Inr b \<Rightarrow>
          (if b = 0 then Inl (PyError ZeroDivisionError ''float division by zero'')
           else Inr (case a of
                       Finite x \<Rightarrow> to_flt (x / b)
                     | PosInf \<Rightarrow> (if 0 < b then PosInf else NegInf)
                     | NegInf \<Rightarrow> (if 0 < b then NegInf else PosInf)
                     | NaN \<Rightarrow> NaN)))"

text \<open>
  \<^verbatim>\<open>round(x, 4)\<close> of a finite float: the exact value of \<open>x\<close> is rounded to four
  decimals, a tie to the even last digit, and the result is the double nearest to that
  decimal number.
\<close>

definition py_round4 :: "rat \<Rightarrow> rat" where
  "py_round4 x = round_double (of_int (round_half_even (x * 10000)) / 10000)"

section \<open>Library functions the service calls\<close>

text \<open>
  A \<^verbatim>\<open>datetime\<close>: the microseconds of its wall-clock fields since
  \<^verbatim>\<open>0001-01-01T00:00:00\<close>, and its UTC offset in microseconds when it is
  timezone-aware. \<^verbatim>\<open>datetime.min\<close> is the naive value 0.
\<close>

record datetime =
  dt_ticks :: int
  dt_utcoffset :: "int option"

definition datetime_min :: datetime where
  "datetime_min = \<lparr>dt_ticks = 0, dt_utcoffset = None\<rparr>"

text \<open>
  \<^verbatim>\<open>a >= b\<close> and \<^verbatim>\<open>(a - b).days\<close> on datetimes. Python refuses to mix a naive and an
  aware operand; two aware operands are compared as instants.
\<close>

definition dt_ge :: "datetime \<Rightarrow> datetime \<Rightarrow> exn + bool" where
  "dt_ge a b =
     (case (dt_utcoffset a, dt_utcoffset b) of
        (None, None) \<Rightarrow> Inr (dt_ticks b \<le> dt_ticks a)
      | (Some oa, Some ob) \<Rightarrow> Inr (dt_ticks b - ob \<le> dt_ticks a - oa)
      | _ \<Rightarrow> Inl (PyError TypeError ''cannot compare offset-naive and offset-aware datetimes''))"

definition day_us :: int where
  "day_us = 86400000000"

definition dt_sub_days :: "datetime \<Rightarrow> datetime \<Rightarrow> exn + int" where
  "dt_sub_days a b =
     (case (dt_utcoffset a, dt_utcoffset b) of
        (None, None) \<Rightarrow> Inr ((dt_ticks a - dt_ticks b) div day_us)
      | (Some oa, Some ob) \<Rightarrow> Inr (((dt_ticks a - oa) - (dt_ticks b - ob)) div day_us)
      | _ \<Rightarrow> Inl (PyError TypeError ''cannot subtract offset-naive and offset-aware datetimes''))"

text \<open>
  Functions of Python and of \<^verbatim>\<open>dateutil\<close> that the service calls and that are not code
  of the repository are parameters of the model:
  \<^item> \<open>py_repr\<close>: \<^verbatim>\<open>str(v)\<close> of a value that is not a string;
  \<^item> \<open>float_of_str\<close>: \<^verbatim>\<open>float(s)\<close> of a string, \<open>None\<close> when it raises;
  \<^item> \<open>dateutil_parse\<close>: \<^verbatim>\<open>dateutil.parser.parse(v)\<close>, \<open>None\<close> when it raises;
  \<^item> \<open>strftime_ymd\<close>: \<^verbatim>\<open>d.strftime("%Y-%m-%d")\<close>.
\<close>

record pylib =
  py_repr :: "pyval \<Rightarrow> string"
  float_of_str :: "string \<Rightarrow> flt option"
  dateutil_parse :: "pyval \<Rightarrow> datetime option"
  strftime_ymd :: "datetime \<Rightarrow> string"

definition py_str :: "pylib \<Rightarrow> pyval \<Rightarrow> string" where
  "py_str lib v = (case v of PStr s \<Rightarrow> s | _ \<Rightarrow> py_repr lib v)"

text \<open>\<^verbatim>\<open>float(v)\<close>.\<close>

definition py_float :: "pylib \<Rightarrow> pyval \<Rightarrow> exn + flt" where
  "py_float lib v =
     (case v of
        PFloat r \<Rightarrow> Inr (Finite r)
      | PInt i \<Rightarrow> (case int_to_float i of Inl e \<Rightarrow> Inl e | Inr y \<Rightarrow> Inr (Finite y))
      | PBool b \<Rightarrow> Inr (Finite (if b then 1 else 0))
      | PStr s \<Rightarrow>
          (case float_of_str lib s of
             None \<Rightarrow> Inl (PyError ValueError ''could not convert string to float'')
           | Some x \<Rightarrow> Inr x)
      | _ \<Rightarrow> Inl (PyError TypeError ''float() argument must be a string or a real number''))"

section \<open>The memory store\<close>

text \<open>
  \<^verbatim>\<open>self.memory\<close> is an external collaborator. Each of its methods is a function of the
  store's state that returns the new state with either the exception it raised or its
  result. The top-level shape of a result follows the store's contract (a dict, a dict or
  \<^verbatim>\<open>None\<close>, a boolean); the values inside are any Python values. \<open>st_payload\<close> is
  \<^verbatim>\<open>self.memory.storage.vector_store.get(memory_id)\<close> followed by \<^verbatim>\<open>.payload\<close>, with
  \<open>PNone\<close> when the result itself is falsy.
\<close>

record add_request =
  add_messages :: pyval
  add_user_id :: pyval
  add_agent_id :: pyval
  add_run_id :: pyval
  add_metadata :: pyval
  add_filters :: pyval
  add_scope :: pyval
  add_memory_type :: pyval
  add_infer :: bool

record get_all_request =
  ga_user_id :: pyval
  ga_agent_id :: pyval
  ga_limit :: int
  ga_offset :: "int option"
  ga_sort_by :: "pyval option"
  ga_order :: "string option"

type_synonym ('s, 'a) io = "'s \<Rightarrow> (exn + 'a) \<times> 's"

record 's memory_store =
  st_add :: "add_request \<Rightarrow> ('s, pydict) io"
  st_get :: "pyval \<Rightarrow> pyval \<Rightarrow> pyval \<Rightarrow> ('s, pydict option) io"
  st_payload :: "pyval \<Rightarrow> ('s, pyval) io"
  st_get_all :: "get_all_request \<Rightarrow> ('s, pydict) io"
  st_update :: "pyval \<Rightarrow> pyval \<Rightarrow> pyval \<Rightarrow> pyval \<Rightarrow> pyval \<Rightarrow> ('s, pydict option) io"
  st_delete :: "pyval \<Rightarrow> pyval \<Rightarrow> pyval \<Rightarrow> ('s, bool) io"
  st_get_statistics :: "pyval \<Rightarrow> pyval \<Rightarrow> ('s, pydict) io"

section \<open>get_memory\<close>

text \<open>
  \<^verbatim>\<open>except APIError: raise\<close> followed by \<^verbatim>\<open>except Exception as e: raise APIError(code,
  f"{prefix}{str(e)}", 500)\<close>: the handler pair that closes most methods.
\<close>

definition reraise :: "error_code \<Rightarrow> string \<Rightarrow> exn \<Rightarrow> exn" where
  "reraise code prefix e =
     (if is_api_error e then e else APIError code (prefix @ exn_str e) 500)"

text \<open>
  The secondary lookup of \<^verbatim>\<open>get_memory\<close>: when the record's content is empty, the raw
  payload's \<^verbatim>\<open>data\<close> field replaces it. An exception in the lookup is logged and the
  record is returned as it is.
\<close>

definition payload_content :: "pyval \<Rightarrow> pydict \<Rightarrow> pydict" where
  "payload_content payload memory =
     (case payload of
        PDict p \<Rightarrow>
          (if p \<noteq> [] then
             (let data_content = dict_get_default p ''data'' (PStr '''')
              in if truthy data_content then dict_set ''content'' data_content memory
                 else memory)
           else memory)
      | _ \<Rightarrow> memory)"

definition get_memory ::
  "pylib \<Rightarrow> 's memory_store \<Rightarrow> pyval \<Rightarrow> pyval \<Rightarrow> pyval \<Rightarrow> ('s, pydict) io" where
  "get_memory lib st memory_id user_id agent_id s =
     (case st_get st memory_id user_id agent_id s of
        (Inl e, s1) \<Rightarrow> (Inl (reraise INTERNAL_ERROR ''Failed to get memory: '' e), s1)
      | (Inr None, s1) \<Rightarrow>
          (Inl (APIError MEMORY_NOT_FOUND
                  (''Memory '' @ py_str lib memory_id @ '' not found'') 404), s1)
      | (Inr (Some memory), s1) \<Rightarrow>
          (if \<not> truthy (dict_get memory ''content'') \<or> dict_get memory ''content'' = PStr ''''
           then
             (case st_payload st memory_id s1 of
                (Inl e, s2) \<Rightarrow> (Inr memory, s2)
              | (Inr payload, s2) \<Rightarrow> (Inr (payload_content payload memory), s2))
           else (Inr memory, s1)))"

section \<open>update_memory\<close>

text \<open>
  Lines 307-315 of the source, which \<^verbatim>\<open>batch_update_memories\<close> repeats at lines 684-692:
  the content and the metadata that go to the store. Unpacking \<^verbatim>\<open>**\<close> of a value that
  is not a mapping raises \<^verbatim>\<open>TypeError\<close>.
\<close>

definition final_content :: "pyval \<Rightarrow> pydict \<Rightarrow> pyval" where
  "final_content content existing =
     (if content \<noteq> PNone then content else dict_get_default existing ''content'' (PStr ''''))"

definition final_metadata :: "pyval \<Rightarrow> pydict \<Rightarrow> exn + pyval" where
  "final_metadata metadata existing =
     (if metadata \<noteq> PNone \<and> truthy (dict_get existing ''metadata'') then
        (case (dict_get_default existing ''metadata'' (PDict []), metadata) of
           (PDict old, PDict new) \<Rightarrow> Inr (PDict (dict_merge old new))
         | _ \<Rightarrow> Inl (PyError TypeError ''object is not a mapping''))
      else if truthy (dict_get existing ''metadata'') then Inr (dict_get existing ''metadata'')
      else Inr metadata)"

text \<open>
  The store's update result gets the record's id when it lacks one
  (\<^verbatim>\<open>if result and "id" not in result\<close>).
\<close>

definition ensure_id :: "pyval \<Rightarrow> pydict option \<Rightarrow> pydict option" where
  "ensure_id memory_id result =
     (case result of
        None \<Rightarrow> None
      | Some r \<Rightarrow>
          (if r \<noteq> [] \<and> \<not> dict_has r ''id''
           then Some (dict_set ''memory_id'' memory_id (dict_set ''id'' memory_id r))
           else Some r))"

definition update_memory ::
  "pylib \<Rightarrow> 's memory_store \<Rightarrow> pyval \<Rightarrow> pyval \<Rightarrow> pyval \<Rightarrow> pyval \<Rightarrow> pyval \<Rightarrow>
   ('s, pydict option) io" where
  "update_memory lib st memory_id content user_id agent_id metadata s =
     (case get_memory lib st memory_id user_id agent_id s of
        (Inl e, s1) \<Rightarrow> (Inl (reraise MEMORY_UPDATE_FAILED ''Failed to update memory: '' e), s1)
      | (Inr existing, s1) \<Rightarrow>
          (if content = PNone \<and> metadata = PNone then
             (Inl (reraise MEMORY_UPDATE_FAILED ''Failed to update memory: ''
                     (PyError ValueError
                        ''At least one of content or metadata must be provided'')), s1)
           else
             (case final_metadata metadata existing of
                Inl e \<Rightarrow>
                  (Inl (reraise MEMORY_UPDATE_FAILED ''Failed to update memory: '' e), s1)
              | Inr fm \<Rightarrow>
                  (case st_update st memory_id (final_content content existing)
                          user_id agent_id fm s1 of
                     (Inl e, s2) \<Rightarrow>
                       (Inl (reraise MEMORY_UPDATE_FAILED ''Failed to update memory: '' e), s2)
                   | (Inr result, s2) \<Rightarrow> (Inr (ensure_id memory_id result), s2)))))"

section \<open>Iteration, length and indexing of a value\<close>

text \<open>
  \<^verbatim>\<open>for x in v\<close>, \<^verbatim>\<open>len(v)\<close> and \<^verbatim>\<open>v[0]\<close> on a value of any type: a list gives its
  elements, a string its characters, a dict its keys; the other values raise
  \<^verbatim>\<open>TypeError\<close>. A dict with string keys has no key \<^verbatim>\<open>0\<close>.
\<close>

definition py_iter :: "pyval \<Rightarrow> exn + pyval list" where
  "py_iter v =
     (case v of
        PList xs \<Rightarrow> Inr xs
      | PStr s \<Rightarrow> Inr (map (\<lambda>c. PStr [c]) s)
      | PDict d \<Rightarrow> Inr (map (\<lambda>kv. PStr (fst kv)) d)
      | _ \<Rightarrow> Inl (PyError TypeError ''object is not iterable''))"

definition py_len :: "pyval \<Rightarrow> exn + nat" where
  "py_len v =
     (case v of
        PList xs \<Rightarrow> Inr (length xs)
      | PStr s \<Rightarrow> Inr (length s)
      | PDict d \<Rightarrow> Inr (length d)
      | _ \<Rightarrow> Inl (PyError TypeError ''object has no len()''))"

definition py_first :: "pyval \<Rightarrow> exn + pyval" where
  "py_first v =
     (case v of
        PList xs \<Rightarrow>
          (case xs of
             [] \<Rightarrow> Inl (PyError OtherError ''list index out of range'')
           | x # _ \<Rightarrow> Inr x)
      | PStr s \<Rightarrow>
          (case s of
             [] \<Rightarrow> Inl (PyError OtherError ''string index out of range'')
           | c # _ \<Rightarrow> Inr (PStr [c]))
      | PDict d \<Rightarrow> Inl (PyError OtherError ''KeyError: 0'')
      | _ \<Rightarrow> Inl (PyError TypeError ''object is not subscriptable''))"

fun is_dict :: "pyval \<Rightarrow> bool" where
  "is_dict (PDict d) = True"
| "is_dict _ = False"

section \<open>create_memory\<close>

text \<open>
  The parameters of \<^verbatim>\<open>create_memory\<close> are the ones it hands to \<^verbatim>\<open>self.memory.add\<close>, so
  the model takes them as one \<open>add_request\<close>. The logger and the metrics collector are
  process-wide singletons outside the service and are not modelled.
\<close>

definition get_field :: "pydict \<Rightarrow> string \<Rightarrow> pyval \<Rightarrow> pyval" where
  "get_field result_item result_key param_value =
     (if dict_has result_item result_key then
        (let result_value = dict_get result_item result_key
         in if result_value \<noteq> PNone then result_value else param_value)
      else param_value)"

definition copy_timestamp :: "string \<Rightarrow> pydict \<Rightarrow> pydict \<Rightarrow> pydict" where
  "copy_timestamp key result_item normalized =
     (if dict_has result_item key \<and> dict_get result_item key \<noteq> PNone
      then dict_set key (dict_get result_item key) normalized
      else normalized)"

definition normalized_memory :: "add_request \<Rightarrow> pydict \<Rightarrow> pyval \<Rightarrow> pydict" where
  "normalized_memory req result_item memory_id =
     (let result_metadata =
            (if dict_get result_item ''metadata'' = PNone
             then py_or (add_metadata req) (PDict [])
             else dict_get result_item ''metadata'')
      in copy_timestamp ''updated_at'' result_item
           (copy_timestamp ''created_at'' result_item
              [(''id'', memory_id),
               (''memory_id'', memory_id),
               (''content'', get_field result_item ''memory'' (add_messages req)),
               (''user_id'', get_field result_item ''user_id'' (add_user_id req)),
               (''agent_id'', get_field result_item ''agent_id'' (add_agent_id req)),
               (''run_id'', get_field result_item ''run_id'' (add_run_id req)),
               (''metadata'', (if is_dict result_metadata then result_metadata else PDict []))]))"

fun normalize_results ::
  "pylib \<Rightarrow> 's memory_store \<Rightarrow> add_request \<Rightarrow> pyval list \<Rightarrow> pydict list \<Rightarrow>
   ('s, pydict list) io" where
  "normalize_results lib st req [] normalized_memories s = (Inr normalized_memories, s)"
| "normalize_results lib st req (item # items) normalized_memories s =
     (case item of
        PDict result_item \<Rightarrow>
          (let memory_id = dict_get result_item ''id''
           in if memory_id = PNone
              then normalize_results lib st req items normalized_memories s
              else
                (case get_memory lib st memory_id (add_user_id req) (add_agent_id req) s of
                   (Inr full_memory, s1) \<Rightarrow>
                     (if full_memory \<noteq> []
                      then normalize_results lib st req items
                             (normalized_memories @ [full_memory]) s1
                      else normalize_results lib st req items
                             (normalized_memories @ [normalized_memory req result_item memory_id])
                             s1)
                 | (Inl e, s1) \<Rightarrow>
                     normalize_results lib st req items
                       (normalized_memories @ [normalized_memory req result_item memory_id]) s1))
      | _ \<Rightarrow> (Inl (PyError AttributeError ''object has no attribute get''), s))"

definition create_failed :: "exn \<Rightarrow> exn" where
  "create_failed e = APIError MEMORY_CREATE_FAILED (''Failed to create memory: '' @ exn_str e) 500"

definition create_memory ::
  "pylib \<Rightarrow> 's memory_store \<Rightarrow> add_request \<Rightarrow> ('s, pydict list) io" where
  "create_memory lib st req s =
     (case st_add st req s of
        (Inl e, s1) \<Rightarrow> (Inl (create_failed e), s1)
      | (Inr result, s1) \<Rightarrow>
          (let all_results = dict_get_default result ''results'' (PList [])
           in if \<not> truthy all_results then (Inr [], s1)
              else
                (case py_iter all_results of
                   Inl e \<Rightarrow> (Inl (create_failed e), s1)
                 | Inr items \<Rightarrow>
                     (case normalize_results lib st req items [] s1 of
                        (Inl e, s2) \<Rightarrow> (Inl (create_failed e), s2)
                      | (Inr normalized_memories, s2) \<Rightarrow> (Inr normalized_memories, s2)))))"

section \<open>list_memories\<close>

definition list_memories ::
  "'s memory_store \<Rightarrow> pyval \<Rightarrow> pyval \<Rightarrow> int \<Rightarrow> int \<Rightarrow> pyval \<Rightarrow> string \<Rightarrow>
   ('s, pyval list) io" where
  "list_memories st user_id agent_id limit offset sort_by order s =
     (case st_get_all st
             \<lparr>ga_user_id = user_id, ga_agent_id = agent_id, ga_limit = limit,
              ga_offset = Some offset, ga_sort_by = Some sort_by, ga_order = Some order\<rparr> s of
        (Inl e, s1) \<Rightarrow>
          (Inl (APIError INTERNAL_ERROR (''Failed to list memories: '' @ exn_str e) 500), s1)
      | (Inr result, s1) \<Rightarrow>
          (case py_iter (dict_get_default result ''results'' (PList [])) of
             Inl e \<Rightarrow>
               (Inl (APIError INTERNAL_ERROR (''Failed to list memories: '' @ exn_str e) 500),
                s1)
           | Inr memories_list \<Rightarrow> (Inr (filter is_dict memories_list), s1)))"

section \<open>delete_memory and bulk_delete_memories\<close>

definition delete_memory ::
  "pylib \<Rightarrow> 's memory_store \<Rightarrow> pyval \<Rightarrow> pyval \<Rightarrow> pyval \<Rightarrow> ('s, bool) io" where
  "delete_memory lib st memory_id user_id agent_id s =
     (case get_memory lib st memory_id user_id agent_id s of
        (Inl e, s1) \<Rightarrow> (Inl (reraise MEMORY_DELETE_FAILED ''Failed to delete memory: '' e), s1)
      | (Inr existing, s1) \<Rightarrow>
          (case st_delete st memory_id user_id agent_id s1 of
             (Inl e, s2) \<Rightarrow>
               (Inl (reraise MEMORY_DELETE_FAILED ''Failed to delete memory: '' e), s2)
           | (Inr success, s2) \<Rightarrow>
               (if \<not> success
                then (Inl (APIError MEMORY_DELETE_FAILED
                             (''Failed to delete memory '' @ py_str lib memory_id) 500), s2)
                else (Inr True, s2))))"

record bulk_delete_result =
  bd_deleted :: "pyval list"
  bd_failed :: "pyval list"
  bd_total :: nat
  bd_deleted_count :: nat
  bd_failed_count :: nat

text \<open>
  The loop of \<^verbatim>\<open>bulk_delete_memories\<close>. Its handler is \<^verbatim>\<open>except APIError\<close> alone: any
  other exception of \<^verbatim>\<open>delete_memory\<close> would leave the loop and the call.
\<close>

fun bulk_delete_loop ::
  "pylib \<Rightarrow> 's memory_store \<Rightarrow> pyval \<Rightarrow> pyval \<Rightarrow> pyval list \<Rightarrow> pyval list \<Rightarrow> pyval list \<Rightarrow>
   ('s, pyval list \<times> pyval list) io" where
  "bulk_delete_loop lib st user_id agent_id [] deleted failed s = (Inr (deleted, failed), s)"
| "bulk_delete_loop lib st user_id agent_id (memory_id # ids) deleted failed s =
     (case delete_memory lib st memory_id user_id agent_id s of
        (Inr ok, s1) \<Rightarrow>
          bulk_delete_loop lib st user_id agent_id ids (deleted @ [memory_id]) failed s1
      | (Inl (APIError c m sc), s1) \<Rightarrow>
          bulk_delete_loop lib st user_id agent_id ids deleted
            (failed @ [PDict [(''memory_id'', memory_id), (''error'', PStr m)]]) s1
      | (Inl (PyError k m), s1) \<Rightarrow> (Inl (PyError k m), s1))"

definition bulk_delete_memories ::
  "pylib \<Rightarrow> 's memory_store \<Rightarrow> pyval list \<Rightarrow> pyval \<Rightarrow> pyval \<Rightarrow> ('s, bulk_delete_result) io"
  where
  "bulk_delete_memories lib st memory_ids user_id agent_id s =
     (case bulk_delete_loop lib st user_id agent_id memory_ids [] [] s of
        (Inl e, s1) \<Rightarrow> (Inl e, s1)
      | (Inr (deleted, failed), s1) \<Rightarrow>
          (Inr \<lparr>bd_deleted = deleted, bd_failed = failed, bd_total = length memory_ids,
                bd_deleted_count = length deleted, bd_failed_count = length failed\<rparr>, s1))"

section \<open>batch_create_memories\<close>

text \<open>
  The memory id of a store result: \<^verbatim>\<open>results[0].id\<close>, else the top-level
  \<^verbatim>\<open>memory_id\<close>, else the top-level \<^verbatim>\<open>id\<close>.
\<close>

definition extract_memory_id :: "pydict \<Rightarrow> exn + pyval" where
  "extract_memory_id result =
     (let other_keys =
            (if dict_has result ''memory_id'' then Inr (dict_get result ''memory_id'')
             else if dict_has result ''id'' then Inr (dict_get result ''id'')
             else Inr PNone)
      in if dict_has result ''results'' then
           (case py_len (dict_get result ''results'') of
              Inl e \<Rightarrow> Inl e
            | Inr n \<Rightarrow>
                (if 0 < n then
                   (case py_first (dict_get result ''results'') of
                      Inl e \<Rightarrow> Inl e
                    | Inr (PDict first_item) \<Rightarrow> Inr (dict_get first_item ''id'')
                    | Inr _ \<Rightarrow> Inl (PyError AttributeError ''object has no attribute get''))
                 else other_keys))
         else other_keys)"

text \<open>The body of the \<^verbatim>\<open>try\<close> for one item: the created entry, or the exception.\<close>

definition batch_create_item ::
  "'s memory_store \<Rightarrow> pyval \<Rightarrow> pyval \<Rightarrow> pyval \<Rightarrow> bool \<Rightarrow> nat \<Rightarrow> pydict \<Rightarrow> ('s, pyval) io" where
  "batch_create_item st user_id agent_id run_id infer idx memory_item s =
     (let content = dict_get memory_item ''content''
      in if \<not> truthy content
         then (Inl (PyError ValueError ''Memory content is required''), s)
         else
           (case st_add st
                   \<lparr>add_messages = content, add_user_id = user_id, add_agent_id = agent_id,
                    add_run_id = run_id, add_metadata = dict_get memory_item ''metadata'',
                    add_filters = dict_get memory_item ''filters'',
                    add_scope = dict_get memory_item ''scope'',
                    add_memory_type = dict_get memory_item ''memory_type'',
                    add_infer = infer\<rparr> s of
              (Inl e, s1) \<Rightarrow> (Inl e, s1)
            | (Inr result, s1) \<Rightarrow>
                (case extract_memory_id result of
                   Inl e \<Rightarrow> (Inl e, s1)
                 | Inr memory_id \<Rightarrow>
                     (if memory_id = PNone
                      then (Inl (PyError ValueError ''Failed to extract memory_id from result''),
                            s1)
                      else (Inr (PDict [(''index'', PInt (int idx)),
                                        (''memory_id'', memory_id),
                                        (''content'', content)]), s1)))))"

text \<open>\<^verbatim>\<open>for idx, memory_item in enumerate(memories)\<close>, with the two result lists.\<close>

fun batch_create_loop ::
  "'s memory_store \<Rightarrow> pyval \<Rightarrow> pyval \<Rightarrow> pyval \<Rightarrow> bool \<Rightarrow> nat \<Rightarrow> pydict list \<Rightarrow>
   pyval list \<Rightarrow> pyval list \<Rightarrow> 's \<Rightarrow> (pyval list \<times> pyval list) \<times> 's" where
  "batch_create_loop st user_id agent_id run_id infer idx [] created failed s =
     ((created, failed), s)"
| "batch_create_loop st user_id agent_id run_id infer idx (memory_item # items) created failed s =
     (case batch_create_item st user_id agent_id run_id infer idx memory_item s of
        (Inr entry, s1) \<Rightarrow>
          batch_create_loop st user_id agent_id run_id infer (Suc idx) items
            (created @ [entry]) failed s1
      | (Inl e, s1) \<Rightarrow>
          batch_create_loop st user_id agent_id run_id infer (Suc idx) items created
            (failed @ [PDict [(''index'', PInt (int idx)),
                              (''content'',
                               dict_get_default memory_item ''content'' (PStr ''N/A'')),
                              (''error'', PStr (exn_str e))]]) s1)"

record batch_create_result =
  bc_created :: "pyval list"
  bc_failed :: "pyval list"
  bc_total :: nat
  bc_created_count :: nat
  bc_failed_count :: nat

definition batch_create_memories ::
  "'s memory_store \<Rightarrow> pydict list \<Rightarrow> pyval \<Rightarrow> pyval \<Rightarrow> pyval \<Rightarrow> bool \<Rightarrow>
   's \<Rightarrow> batch_create_result \<times> 's" where
  "batch_create_memories st memories user_id agent_id run_id infer s =
     (case batch_create_loop st user_id agent_id run_id infer 0 memories [] [] s of
        ((created, failed), s1) \<Rightarrow>
          (\<lparr>bc_created = created, bc_failed = failed, bc_total = length memories,
            bc_created_count = length created, bc_failed_count = length failed\<rparr>, s1))"

section \<open>batch_update_memories\<close>

definition batch_update_item ::
  "pylib \<Rightarrow> 's memory_store \<Rightarrow> pyval \<Rightarrow> pyval \<Rightarrow> nat \<Rightarrow> pydict \<Rightarrow> ('s, pyval) io" where
  "batch_update_item lib st user_id agent_id idx update_item s =
     (let memory_id = dict_get update_item ''memory_id'';
          content = dict_get update_item ''content'';
          metadata = dict_get update_item ''metadata''
      in if memory_id = PNone
         then (Inl (PyError ValueError ''memory_id is required for each update''), s)
         else if content = PNone \<and> metadata = PNone
         then (Inl (PyError ValueError
                      ''At least one of content or metadata must be provided''), s)
         else
           (case get_memory lib st memory_id user_id agent_id s of
              (Inl e, s1) \<Rightarrow> (Inl e, s1)
            | (Inr existing, s1) \<Rightarrow>
                (case final_metadata metadata existing of
                   Inl e \<Rightarrow> (Inl e, s1)
                 | Inr fm \<Rightarrow>
                     (case st_update st memory_id (final_content content existing)
                             user_id agent_id fm s1 of
                        (Inl e, s2) \<Rightarrow> (Inl e, s2)
                      | (Inr result, s2) \<Rightarrow>
                          (Inr (PDict [(''index'', PInt (int idx)),
                                       (''memory_id'', memory_id)]), s2)))))"

fun batch_update_loop ::
  "pylib \<Rightarrow> 's memory_store \<Rightarrow> pyval \<Rightarrow> pyval \<Rightarrow> nat \<Rightarrow> pydict list \<Rightarrow>
   pyval list \<Rightarrow> pyval list \<Rightarrow> 's \<Rightarrow> (pyval list \<times> pyval list) \<times> 's" where
  "batch_update_loop lib st user_id agent_id idx [] updated failed s = ((updated, failed), s)"
| "batch_update_loop lib st user_id agent_id idx (update_item # items) updated failed s =
     (case batch_update_item lib st user_id agent_id idx update_item s of
        (Inr entry, s1) \<Rightarrow>
          batch_update_loop lib st user_id agent_id (Suc idx) items (updated @ [entry]) failed s1
      | (Inl e, s1) \<Rightarrow>
          batch_update_loop lib st user_id agent_id (Suc idx) items updated
            (failed @ [PDict [(''index'', PInt (int idx)),
                              (''memory_id'', dict_get update_item ''memory_id''),
                              (''error'', PStr (exn_str e))]]) s1)"

record batch_update_result =
  bu_updated :: "pyval list"
  bu_failed :: "pyval list"
  bu_total :: nat
  bu_updated_count :: nat
  bu_failed_count :: nat

definition batch_update_memories ::
  "pylib \<Rightarrow> 's memory_store \<Rightarrow> pydict list \<Rightarrow> pyval \<Rightarrow> pyval \<Rightarrow>
   's \<Rightarrow> batch_update_result \<times> 's" where
  "batch_update_memories lib st updates user_id agent_id s =
     (case batch_update_loop lib st user_id agent_id 0 updates [] [] s of
        ((updated, failed), s1) \<Rightarrow>
          (\<lparr>bu_updated = updated, bu_failed = failed, bu_total = length updates,
            bu_updated_count = length updated, bu_failed_count = length failed\<rparr>, s1))"

section \<open>Statistics\<close>

text \<open>
  Keys of a Python dict or set are compared with \<^verbatim>\<open>==\<close> after hashing, so \<^verbatim>\<open>1\<close>,
  \<^verbatim>\<open>1.0\<close> and \<^verbatim>\<open>True\<close> are one key; lists and dicts are not hashable.
\<close>

datatype hkey = KNone | KNum rat | KStr string

definition hash_key :: "pyval \<Rightarrow> exn + hkey" where
  "hash_key v =
     (case v of
        PNone \<Rightarrow> Inr KNone
      | PBool b \<Rightarrow> Inr (KNum (if b then 1 else 0))
      | PInt i \<Rightarrow> Inr (KNum (of_int i))
      | PFloat r \<Rightarrow> Inr (KNum r)
      | PStr s \<Rightarrow> Inr (KStr s)
      | _ \<Rightarrow> Inl (PyError TypeError ''unhashable type''))"

text \<open>\<^verbatim>\<open>counts[k] += 1\<close> on a \<^verbatim>\<open>defaultdict(int)\<close>.\<close>

definition bump :: "'k \<Rightarrow> ('k \<times> nat) list \<Rightarrow> ('k \<times> nat) list" where
  "bump k counts = AList.update k (case map_of counts k of None \<Rightarrow> 1 | Some c \<Rightarrow> Suc c) counts"

text \<open>\<^verbatim>\<open>_parse_datetime\<close>: the sentinel \<^verbatim>\<open>datetime.min\<close> for a falsy or unparseable value.\<close>

definition parse_datetime :: "pylib \<Rightarrow> pyval \<Rightarrow> datetime" where
  "parse_datetime lib date_str =
     (if \<not> truthy date_str then datetime_min
      else (case dateutil_parse lib date_str of None \<Rightarrow> datetime_min | Some d \<Rightarrow> d))"

text \<open>
  \<^verbatim>\<open>[m for m in memories if self._parse_datetime(m.get("created_at")) >= cutoff_date]\<close>.
\<close>

fun filter_by_cutoff :: "pylib \<Rightarrow> datetime \<Rightarrow> pyval list \<Rightarrow> exn + pyval list" where
  "filter_by_cutoff lib cutoff_date [] = Inr []"
| "filter_by_cutoff lib cutoff_date (m # ms) =
     (case m of
        PDict d \<Rightarrow>
          (case dt_ge (parse_datetime lib (dict_get d ''created_at'')) cutoff_date of
             Inl e \<Rightarrow> Inl e
           | Inr keep \<Rightarrow>
               (case filter_by_cutoff lib cutoff_date ms of
                  Inl e \<Rightarrow> Inl e
                | Inr rest \<Rightarrow> Inr (if keep then m # rest else rest)))
      | _ \<Rightarrow> Inl (PyError AttributeError ''object has no attribute get''))"

record age_buckets =
  age_lt_1_day :: nat
  age_1_7_days :: nat
  age_7_30_days :: nat
  age_gt_30_days :: nat

record stats_snapshot =
  ss_total_memories :: nat
  ss_by_type :: "(hkey \<times> nat) list"
  ss_avg_importance :: flt
  ss_top_accessed :: "pydict list"
  ss_growth_trend :: "(string \<times> nat) list"
  ss_age_distribution :: age_buckets

text \<open>The local variables of \<^verbatim>\<open>_calculate_stats_from_memories\<close> that its loop updates.\<close>

record stats_acc =
  acc_by_type :: "(hkey \<times> nat) list"
  acc_total_importance :: flt
  acc_access_counts :: "pydict list"
  acc_growth_by_date :: "(string \<times> nat) list"
  acc_age_distribution :: age_buckets

definition no_ages :: age_buckets where
  "no_ages = \<lparr>age_lt_1_day = 0, age_1_7_days = 0, age_7_30_days = 0, age_gt_30_days = 0\<rparr>"

definition empty_acc :: stats_acc where
  "empty_acc =
     \<lparr>acc_by_type = [], acc_total_importance = Finite 0, acc_access_counts = [],
      acc_growth_by_date = [], acc_age_distribution = no_ages\<rparr>"

text \<open>\<^verbatim>\<open>access_count > 0\<close> and the slice \<^verbatim>\<open>[:100]\<close>.\<close>

definition py_gt_zero :: "pyval \<Rightarrow> exn + bool" where
  "py_gt_zero v =
     (case v of
        PInt i \<Rightarrow> Inr (0 < i)
      | PFloat r \<Rightarrow> Inr (0 < r)
      | PBool b \<Rightarrow> Inr b
      | _ \<Rightarrow> Inl (PyError TypeError ''> not supported between these instances''))"

definition py_slice_100 :: "pyval \<Rightarrow> exn + pyval" where
  "py_slice_100 v =
     (case v of
        PStr s \<Rightarrow> Inr (PStr (take 100 s))
      | PList xs \<Rightarrow> Inr (PList (take 100 xs))
      | _ \<Rightarrow> Inl (PyError TypeError ''object is not subscriptable''))"

definition access_entry :: "pydict \<Rightarrow> exn + pydict list" where
  "access_entry m =
     (let access_count = dict_get_default m ''access_count'' (PInt 0)
      in case py_gt_zero access_count of
           Inl e \<Rightarrow> Inl e
         | Inr positive \<Rightarrow>
             (if positive then
                (case py_slice_100
                        (py_or (py_or (dict_get m ''memory'') (dict_get m ''content''))
                           (PStr [])) of
                   Inl e \<Rightarrow> Inl e
                 | Inr preview \<Rightarrow>
                     Inr [[(''id'', py_or (dict_get m ''id'') (dict_get m ''memory_id'')),
                           (''content'', preview),
                           (''access_count'', access_count)]])
              else Inr []))"

definition age_bucket :: "int \<Rightarrow> age_buckets \<Rightarrow> age_buckets" where
  "age_bucket age buckets =
     (if age < 1 then buckets\<lparr>age_lt_1_day := Suc (age_lt_1_day buckets)\<rparr>
      else if age < 7 then buckets\<lparr>age_1_7_days := Suc (age_1_7_days buckets)\<rparr>
      else if age < 30 then buckets\<lparr>age_7_30_days := Suc (age_7_30_days buckets)\<rparr>
      else buckets\<lparr>age_gt_30_days := Suc (age_gt_30_days buckets)\<rparr>)"

text \<open>The body of the loop for one record \<open>m\<close>, in the order of the source.\<close>

definition stats_step :: "pylib \<Rightarrow> datetime \<Rightarrow> pydict \<Rightarrow> stats_acc \<Rightarrow> exn + stats_acc" where
  "stats_step lib now m acc =
     (case hash_key (py_or (py_or (dict_get m ''type'') (dict_get m ''memory_type''))
                       (PStr ''unknown'')) of
        Inl e \<Rightarrow> Inl e
      | Inr mem_type \<Rightarrow>
          (case py_float lib (py_or (dict_get m ''importance'') (PFloat (1 / 2))) of
             Inl e \<Rightarrow> Inl e
           | Inr importance \<Rightarrow>
               (case access_entry m of
                  Inl e \<Rightarrow> Inl e
                | Inr entries \<Rightarrow>
                    (let acc1 = acc\<lparr>acc_by_type := bump mem_type (acc_by_type acc),
                                   acc_total_importance :=
                                     flt_add (acc_total_importance acc) importance,
                                   acc_access_counts := acc_access_counts acc @ entries\<rparr>;
                         created_at = dict_get m ''created_at''
                     in if truthy created_at then
                          (let date_obj = parse_datetime lib created_at;
                               acc2 = acc1\<lparr>acc_growth_by_date :=
                                              bump (strftime_ymd lib date_obj)
                                                (acc_growth_by_date acc1)\<rparr>
                           in case dt_sub_days now date_obj of
                                Inl e \<Rightarrow> Inl e
                              | Inr age \<Rightarrow>
                                  Inr (acc2\<lparr>acc_age_distribution :=
                                              age_bucket age (acc_age_distribution acc2)\<rparr>))
                        else Inr acc1))))"

fun stats_loop :: "pylib \<Rightarrow> datetime \<Rightarrow> pyval list \<Rightarrow> stats_acc \<Rightarrow> exn + stats_acc" where
  "stats_loop lib now [] acc = Inr acc"
| "stats_loop lib now (m # ms) acc =
     (case m of
        PDict d \<Rightarrow>
          (case stats_step lib now d acc of
             Inl e \<Rightarrow> Inl e
           | Inr acc' \<Rightarrow> stats_loop lib now ms acc')
      | _ \<Rightarrow> Inl (PyError AttributeError ''object has no attribute get''))"

text \<open>
  The numeric value of an access count that passed \<^verbatim>\<open>access_count > 0\<close>, the key of the
  final sort. \<^verbatim>\<open>list.sort(key=..., reverse=True)\<close> is stable: entries with equal keys
  keep their order.
\<close>

definition num_of :: "pyval \<Rightarrow> rat" where
  "num_of v =
     (case v of PInt i \<Rightarrow> of_int i | PFloat r \<Rightarrow> r | PBool b \<Rightarrow> (if b then 1 else 0) | _ \<Rightarrow> 0)"

definition top_accessed :: "pydict list \<Rightarrow> pydict list" where
  "top_accessed access_counts =
     take 10 (sort_key (\<lambda>x. - num_of (dict_get x ''access_count'')) access_counts)"

text \<open>
  \<^verbatim>\<open>_calculate_stats_from_memories\<close>. \<open>now_ticks\<close> is the clock reading of
  \<^verbatim>\<open>datetime.now(timezone.utc)\<close>, an aware datetime with offset 0.
\<close>

definition calculate_stats_from_memories ::
  "pylib \<Rightarrow> int \<Rightarrow> pyval list \<Rightarrow> exn + stats_snapshot" where
  "calculate_stats_from_memories lib now_ticks memories =
     (let total_memories = length memories
      in if total_memories = 0 then
           Inr \<lparr>ss_total_memories = 0, ss_by_type = [], ss_avg_importance = Finite 0,
                ss_top_accessed = [], ss_growth_trend = [], ss_age_distribution = no_ages\<rparr>
         else
           (case stats_loop lib \<lparr>dt_ticks = now_ticks, dt_utcoffset = Some 0\<rparr> memories
                   empty_acc of
              Inl e \<Rightarrow> Inl e
            | Inr acc \<Rightarrow>
                (case (if 0 < total_memories
                       then float_truediv (acc_total_importance acc) (int total_memories)
                       else Inr (Finite 0)) of
                   Inl e \<Rightarrow> Inl e
                 | Inr avg_importance \<Rightarrow>
                     Inr \<lparr>ss_total_memories = total_memories,
                          ss_by_type = acc_by_type acc,
                          ss_avg_importance = avg_importance,
                          ss_top_accessed = top_accessed (acc_access_counts acc),
                          ss_growth_trend = acc_growth_by_date acc,
                          ss_age_distribution = acc_age_distribution acc\<rparr>)))"

text \<open>
  \<^verbatim>\<open>get_statistics\<close>: the store's own aggregate without a cutoff, the recomputed snapshot
  with one. A \<^verbatim>\<open>datetime\<close> is always truthy, so \<^verbatim>\<open>if cutoff_date\<close> asks whether one was
  given. The method has no handler: an exception leaves it as it is.
\<close>

datatype statistics = Native pydict | Recomputed stats_snapshot

definition get_statistics ::
  "pylib \<Rightarrow> 's memory_store \<Rightarrow> int \<Rightarrow> pyval \<Rightarrow> pyval \<Rightarrow> datetime option \<Rightarrow>
   ('s, statistics) io" where
  "get_statistics lib st now_ticks user_id agent_id cutoff_date s =
     (case st_get_statistics st user_id agent_id s of
        (Inl e, s1) \<Rightarrow> (Inl e, s1)
      | (Inr stats, s1) \<Rightarrow>
          (case cutoff_date of
             None \<Rightarrow> (Inr (Native stats), s1)
           | Some cutoff \<Rightarrow>
               (case st_get_all st
                       \<lparr>ga_user_id = user_id, ga_agent_id = agent_id, ga_limit = 10000,
                        ga_offset = None, ga_sort_by = None, ga_order = None\<rparr> s1 of
                  (Inl e, s2) \<Rightarrow> (Inl e, s2)
                | (Inr result, s2) \<Rightarrow>
                    (case py_iter (dict_get_default result ''results'' (PList [])) of
                       Inl e \<Rightarrow> (Inl e, s2)
                     | Inr all_memories \<Rightarrow>
                         (case filter_by_cutoff lib cutoff all_memories of
                            Inl e \<Rightarrow> (Inl e, s2)
                          | Inr filtered_memories \<Rightarrow>
                              (case calculate_stats_from_memories lib now_ticks
                                      filtered_memories of
                                 Inl e \<Rightarrow> (Inl e, s2)
                               | Inr snapshot \<Rightarrow> (Inr (Recomputed snapshot), s2)))))))"

section \<open>Quality analysis\<close>

text \<open>
  \<^verbatim>\<open>str.strip()\<close>: whitespace is dropped at both ends. Strings are sequences of code
  points below 256; the ones Python counts as whitespace are listed.
\<close>

definition is_space :: "char \<Rightarrow> bool" where
  "is_space c = ((of_char c :: nat) \<in> {9, 10, 11, 12, 13, 28, 29, 30, 31, 32, 133, 160})"

definition strip :: "string \<Rightarrow> string" where
  "strip s = rev (dropWhile is_space (rev (dropWhile is_space s)))"

text \<open>
  The three defect criteria of a record, as the loop tests them. The literal \<^verbatim>\<open>0.3\<close>
  is the double nearest to 3/10.
\<close>

definition missing_metadata :: "pydict \<Rightarrow> bool" where
  "missing_metadata memory =
     (\<not> truthy (dict_get memory ''metadata'') \<or> dict_get memory ''metadata'' = PDict [])"

definition empty_content :: "pylib \<Rightarrow> pydict \<Rightarrow> bool" where
  "empty_content lib memory =
     (let content = py_or (py_or (py_or (dict_get memory ''memory'') (dict_get memory ''content''))
                             (dict_get memory ''data'')) (PStr [])
      in length (strip (py_str lib content)) < 5)"

definition low_importance :: "pylib \<Rightarrow> pydict \<Rightarrow> exn + bool" where
  "low_importance lib memory =
     (let importance = dict_get memory ''importance''
      in if importance \<noteq> PNone then
           (case py_float lib importance of
              Inl e \<Rightarrow> Inl e
            | Inr x \<Rightarrow> Inr (flt_lt x (Finite (round_double (3 / 10)))))
         else Inr False)"

record quality_acc =
  qa_missing_metadata :: nat
  qa_empty_content :: nat
  qa_low_importance :: nat
  qa_low_quality_memories :: "hkey list"

text \<open>
  \<^verbatim>\<open>low_quality_memories.add(memory_id)\<close> on the set of flagged ids, kept as a list
  without repetition.
\<close>

definition set_add :: "pyval \<Rightarrow> quality_acc \<Rightarrow> exn + quality_acc" where
  "set_add memory_id acc =
     (case hash_key memory_id of
        Inl e \<Rightarrow> Inl e
      | Inr k \<Rightarrow>
          Inr (acc\<lparr>qa_low_quality_memories := List.insert k (qa_low_quality_memories acc)\<rparr>))"

definition quality_step :: "pylib \<Rightarrow> pydict \<Rightarrow> quality_acc \<Rightarrow> exn + quality_acc" where
  "quality_step lib memory acc =
     (let memory_id = py_or (dict_get memory ''id'') (dict_get memory ''memory_id'')
      in case (if missing_metadata memory
               then set_add memory_id (acc\<lparr>qa_missing_metadata := Suc (qa_missing_metadata acc)\<rparr>)
               else Inr acc) of
           Inl e \<Rightarrow> Inl e
         | Inr acc1 \<Rightarrow>
             (case (if empty_content lib memory
                    then set_add memory_id
                           (acc1\<lparr>qa_empty_content := Suc (qa_empty_content acc1)\<rparr>)
                    else Inr acc1) of
                Inl e \<Rightarrow> Inl e
              | Inr acc2 \<Rightarrow>
                  (case low_importance lib memory of
                     Inl e \<Rightarrow> Inl e
                   | Inr low \<Rightarrow>
                       (if low
                        then set_add memory_id
                               (acc2\<lparr>qa_low_importance := Suc (qa_low_importance acc2)\<rparr>)
                        else Inr acc2))))"

fun quality_loop :: "pylib \<Rightarrow> pyval list \<Rightarrow> quality_acc \<Rightarrow> exn + quality_acc" where
  "quality_loop lib [] acc = Inr acc"
| "quality_loop lib (m # ms) acc =
     (case m of
        PDict memory \<Rightarrow>
          (case quality_step lib memory acc of
             Inl e \<Rightarrow> Inl e
           | Inr acc' \<Rightarrow> quality_loop lib ms acc')
      | _ \<Rightarrow> Inl (PyError AttributeError ''object has no attribute get''))"

record quality_report =
  qr_total_memories :: nat
  qr_low_quality_count :: nat
  qr_low_quality_ratio :: rat
  qr_quality_criteria :: "(string \<times> nat) list"

text \<open>The part of \<^verbatim>\<open>analyze_memory_quality\<close> after the records are fetched and filtered.\<close>

definition quality_of :: "pylib \<Rightarrow> pyval list \<Rightarrow> exn + quality_report" where
  "quality_of lib memories_list =
     (let total_memories = length memories_list
      in if total_memories = 0 then
           Inr \<lparr>qr_total_memories = 0, qr_low_quality_count = 0, qr_low_quality_ratio = 0,
                qr_quality_criteria = []\<rparr>
         else
           (case quality_loop lib memories_list
                   \<lparr>qa_missing_metadata = 0, qa_empty_content = 0, qa_low_importance = 0,
                    qa_low_quality_memories = []\<rparr> of
              Inl e \<Rightarrow> Inl e
            | Inr acc \<Rightarrow>
                (let low_quality_count = length (qa_low_quality_memories acc)
                 in case (if 0 < total_memories
                          then int_truediv (int low_quality_count) (int total_memories)
                          else Inr 0) of
                      Inl e \<Rightarrow> Inl e
                    | Inr low_quality_ratio \<Rightarrow>
                        Inr \<lparr>qr_total_memories = total_memories,
                             qr_low_quality_count = low_quality_count,
                             qr_low_quality_ratio = py_round4 low_quality_ratio,
                             qr_quality_criteria =
                               [(''missing_metadata'', qa_missing_metadata acc),
                                (''empty_content'', qa_empty_content acc),
                                (''low_importance'', qa_low_importance acc)]\<rparr>)))"

definition quality_failed :: "exn \<Rightarrow> exn" where
  "quality_failed e =
     APIError INTERNAL_ERROR (''Failed to analyze memory quality: '' @ exn_str e) 500"

definition analyze_memory_quality ::
  "pylib \<Rightarrow> 's memory_store \<Rightarrow> pyval \<Rightarrow> pyval \<Rightarrow> datetime option \<Rightarrow> ('s, quality_report) io"
  where
  "analyze_memory_quality lib st user_id agent_id cutoff_date s =
     (case st_get_all st
             \<lparr>ga_user_id = user_id, ga_agent_id = agent_id, ga_limit = 10000,
              ga_offset = Some 0, ga_sort_by = None, ga_order = None\<rparr> s of
        (Inl e, s1) \<Rightarrow> (Inl (quality_failed e), s1)
      | (Inr result, s1) \<Rightarrow>
          (case py_iter (dict_get_default result ''results'' (PList [])) of
             Inl e \<Rightarrow> (Inl (quality_failed e), s1)
           | Inr all_memories \<Rightarrow>
               (case (case cutoff_date of
                        None \<Rightarrow> Inr all_memories
                      | Some cutoff \<Rightarrow> filter_by_cutoff lib cutoff all_memories) of
                  Inl e \<Rightarrow> (Inl (quality_failed e), s1)
                | Inr memories_list \<Rightarrow>
                    (case quality_of lib memories_list of
                       Inl e \<Rightarrow> (Inl (quality_failed e), s1)
                     | Inr report \<Rightarrow> (Inr report, s1)))))"

section \<open>Observing the store\<close>

text \<open>
  What the service writes is what the store's \<^verbatim>\<open>update\<close> receives. \<open>recording st\<close> is
  the store \<open>st\<close> with a log beside its state: every call goes to \<open>st\<close> unchanged, and
  an \<^verbatim>\<open>update\<close> appends its arguments to the log.
\<close>

record update_call =
  uc_memory_id :: pyval
  uc_content :: pyval
  uc_user_id :: pyval
  uc_agent_id :: pyval
  uc_metadata :: pyval

definition pass_log :: "('s, 'a) io \<Rightarrow> ('s \<times> update_call list, 'a) io" where
  "pass_log f = (\<lambda>(s, calls). case f s of (r, s') \<Rightarrow> (r, (s', calls)))"

definition recording :: "'s memory_store \<Rightarrow> ('s \<times> update_call list) memory_store" where
  "recording st =
     \<lparr>st_add = (\<lambda>req. pass_log (st_add st req)),
      st_get = (\<lambda>memory_id user_id agent_id. pass_log (st_get st memory_id user_id agent_id)),
      st_payload = (\<lambda>memory_id. pass_log (st_payload st memory_id)),
      st_get_all = (\<lambda>req. pass_log (st_get_all st req)),
      st_update =
        (\<lambda>memory_id content user_id agent_id metadata (s, calls).
           case st_update st memory_id content user_id agent_id metadata s of
             (r, s') \<Rightarrow>
               (r, (s', calls @ [\<lparr>uc_memory_id = memory_id, uc_content = content,
                                  uc_user_id = user_id, uc_agent_id = agent_id,
                                  uc_metadata = metadata\<rparr>]))),
      st_delete = (\<lambda>memory_id user_id agent_id. pass_log (st_delete st memory_id user_id agent_id)),
      st_get_statistics = (\<lambda>user_id agent_id. pass_log (st_get_statistics st user_id agent_id))\<rparr>"

text \<open>The update calls that one \<^verbatim>\<open>update_memory\<close>, or one item of a batch, sends.\<close>

definition update_writes ::
  "pylib \<Rightarrow> 's memory_store \<Rightarrow> pyval \<Rightarrow> pyval \<Rightarrow> pyval \<Rightarrow> pyval \<Rightarrow> pyval \<Rightarrow> 's \<Rightarrow>
   update_call list" where
  "update_writes lib st memory_id content user_id agent_id metadata s =
     snd (snd (update_memory lib (recording st) memory_id content user_id agent_id metadata
                 (s, [])))"

definition batch_item_writes ::
  "pylib \<Rightarrow> 's memory_store \<Rightarrow> pyval \<Rightarrow> pyval \<Rightarrow> nat \<Rightarrow> pydict \<Rightarrow> 's \<Rightarrow> update_call list"
  where
  "batch_item_writes lib st user_id agent_id idx update_item s =
     snd (snd (batch_update_item lib (recording st) user_id agent_id idx update_item (s, [])))"

section \<open>Reading a batch result\<close>

text \<open>
  The index that an entry of a result list carries, and the memory id it carries; an entry
  of \<^verbatim>\<open>deleted\<close> is the memory id itself.
\<close>

definition entry_index :: "pyval \<Rightarrow> pyval" where
  "entry_index e = (case e of PDict d \<Rightarrow> dict_get d ''index'' | _ \<Rightarrow> PNone)"

definition entry_memory_id :: "pyval \<Rightarrow> pyval" where
  "entry_memory_id e = (case e of PDict d \<Rightarrow> dict_get d ''memory_id'' | _ \<Rightarrow> e)"

text \<open>
  The invariant of the spec's BatchResult, in its words: every index in \<open>[0, n)\<close>
  appears in exactly one of the two lists (and nothing else does).
\<close>

definition index_partition :: "nat \<Rightarrow> pyval list \<Rightarrow> pyval list \<Rightarrow> bool" where
  "index_partition n successes failures =
     (mset (map entry_index successes) + mset (map entry_index failures) =
      mset (map (\<lambda>i. PInt (int i)) [0..<n]))"

section \<open>Reading a quality report\<close>

text \<open>
  A record triggers a defect when one of the three criteria fires; the id under which the
  loop flags it is \<^verbatim>\<open>memory.get("id") or memory.get("memory_id")\<close>.
\<close>

definition triggers :: "pylib \<Rightarrow> pydict \<Rightarrow> bool" where
  "triggers lib memory =
     (missing_metadata memory \<or> empty_content lib memory \<or> low_importance lib memory = Inr True)"

definition quality_id :: "pydict \<Rightarrow> exn + hkey" where
  "quality_id memory = hash_key (py_or (dict_get memory ''id'') (dict_get memory ''memory_id''))"

text \<open>
  How many records of a list a criterion fires on, and the ids under which the records
  that trigger a defect are flagged, one per such record, in the order of the list.
\<close>

definition fires :: "(pydict \<Rightarrow> bool) \<Rightarrow> pyval list \<Rightarrow> nat" where
  "fires criterion ms =
     length (filter (\<lambda>m. case m of PDict d \<Rightarrow> criterion d | _ \<Rightarrow> False) ms)"

definition flagged_keys :: "pylib \<Rightarrow> pyval list \<Rightarrow> (exn + hkey) list" where
  "flagged_keys lib ms =
     concat (map (\<lambda>m. case m of
                        PDict d \<Rightarrow> (if triggers lib d then [quality_id d] else [])
                      | _ \<Rightarrow> []) ms)"

section \<open>A store and a library to run the service on\<close>

text \<open>
  \<open>ram_store\<close> keeps the entries it holds in a list. Its \<^verbatim>\<open>add\<close> reports no result for
  a content it already holds; its \<^verbatim>\<open>update\<close> returns the payload without the id; its
  \<^verbatim>\<open>get_all\<close> hands back every entry, well-formed or not.
\<close>

definition has_id :: "pyval \<Rightarrow> pyval \<Rightarrow> bool" where
  "has_id memory_id v = (case v of PDict r \<Rightarrow> dict_get r ''id'' = memory_id | _ \<Rightarrow> False)"

definition has_content :: "pyval \<Rightarrow> pyval \<Rightarrow> bool" where
  "has_content content v = (case v of PDict r \<Rightarrow> dict_get r ''content'' = content | _ \<Rightarrow> False)"

definition ram_find :: "pyval \<Rightarrow> pyval list \<Rightarrow> pydict option" where
  "ram_find memory_id s =
     (case find (has_id memory_id) s of Some (PDict r) \<Rightarrow> Some r | _ \<Rightarrow> None)"

definition ram_add :: "add_request \<Rightarrow> (pyval list, pydict) io" where
  "ram_add req s =
     (if find (has_content (add_messages req)) s \<noteq> None
      then (Inr [(''results'', PList [])], s)
      else
        (let new_id = PInt (int (length s) + 1)
         in (Inr [(''results'', PList [PDict [(''id'', new_id), (''memory'', add_messages req)]])],
             s @ [PDict [(''id'', new_id), (''content'', add_messages req),
                         (''metadata'', add_metadata req)]])))"

definition ram_update ::
  "pyval \<Rightarrow> pyval \<Rightarrow> pyval \<Rightarrow> pyval \<Rightarrow> pyval \<Rightarrow> (pyval list, pydict option) io" where
  "ram_update memory_id content user_id agent_id metadata s =
     (Inr (Some [(''content'', content), (''metadata'', metadata)]),
      map (\<lambda>v. case v of
                  PDict r \<Rightarrow>
                    (if dict_get r ''id'' = memory_id
                     then PDict (dict_set ''metadata'' metadata (dict_set ''content'' content r))
                     else v)
                | _ \<Rightarrow> v) s)"

definition ram_store :: "(pyval list) memory_store" where
  "ram_store =
     \<lparr>st_add = ram_add,
      st_get = (\<lambda>memory_id user_id agent_id s. (Inr (ram_find memory_id s), s)),
      st_payload = (\<lambda>memory_id s. (Inr PNone, s)),
      st_get_all = (\<lambda>req s. (Inr [(''results'', PList s)], s)),
      st_update = ram_update,
      st_delete =
        (\<lambda>memory_id user_id agent_id s.
           (Inr (ram_find memory_id s \<noteq> None), filter (\<lambda>v. \<not> has_id memory_id v) s)),
      st_get_statistics =
        (\<lambda>user_id agent_id s. (Inr [(''total_memories'', PInt (int (length s)))], s))\<rparr>"

text \<open>
  \<open>demo_lib\<close> stands in for Python and \<^verbatim>\<open>dateutil\<close> on the inputs of the examples: it
  prints natural numbers in decimal, reads the timestamps of \<open>iso_dates\<close>, and formats
  their days.
\<close>

fun show_nat :: "nat \<Rightarrow> string" where
  "show_nat n =
     (if n < 10 then [''0123456789'' ! n]
      else show_nat (n div 10) @ [''0123456789'' ! (n mod 10)])"

definition iso_dates :: "(string \<times> datetime) list" where
  "iso_dates =
     [(''2023-03-15T00:00:00+00:00'', \<lparr>dt_ticks = 63814435200000000, dt_utcoffset = Some 0\<rparr>),
      (''2024-01-01T00:00:00+00:00'', \<lparr>dt_ticks = 63839664000000000, dt_utcoffset = Some 0\<rparr>),
      (''2024-05-01T00:00:00+00:00'', \<lparr>dt_ticks = 63850118400000000, dt_utcoffset = Some 0\<rparr>),
      (''2024-05-20T00:00:00+00:00'', \<lparr>dt_ticks = 63851760000000000, dt_utcoffset = Some 0\<rparr>),
      (''2024-06-01T00:00:00+00:00'', \<lparr>dt_ticks = 63852796800000000, dt_utcoffset = Some 0\<rparr>)]"

definition demo_lib :: pylib where
  "demo_lib =
     \<lparr>py_repr = (\<lambda>v. case v of PInt i \<Rightarrow> show_nat (nat i) | _ \<Rightarrow> ''<object>''),
      float_of_str = (\<lambda>s. None),
      dateutil_parse = (\<lambda>v. case v of PStr s \<Rightarrow> map_of iso_dates s | _ \<Rightarrow> None),
      strftime_ymd =
        (\<lambda>d. case find (\<lambda>kv. dt_ticks (snd kv) div day_us = dt_ticks d div day_us) iso_dates of
               Some kv \<Rightarrow> take 10 (fst kv)
             | None \<Rightarrow> ''0001-01-01'')\<rparr>"

text \<open>A store state for the examples: two records, one with metadata and one without.\<close>

definition tea_store :: "pyval list" where
  "tea_store =
     [PDict [(''id'', PInt 7), (''content'', PStr ''tea''),
             (''metadata'', PDict [(''a'', PInt 1), (''b'', PInt 2)])],
      PDict [(''id'', PInt 8), (''content'', PStr ''milk'')]]"

text \<open>
  Records for the quality analysis: four notes with ids of their own, of which the first
  has empty metadata and a short text and the third a low importance; two notes without
  an id; and two notes of which the first has 5 as its \<^verbatim>\<open>id\<close> and the second as its
  \<^verbatim>\<open>memory_id\<close>.
\<close>

definition hi_note :: pydict where
  "hi_note = [(''id'', PInt 1), (''memory'', PStr ''hi''), (''metadata'', PDict [])]"

definition bread_note :: pyval where
  "bread_note = PDict [(''id'', PInt 2), (''memory'', PStr ''buy bread today''),
                       (''metadata'', PDict [(''k'', PInt 1)])]"

definition bank_note :: pydict where
  "bank_note = [(''id'', PInt 3), (''memory'', PStr ''call the bank''),
                (''metadata'', PDict [(''k'', PInt 1)]), (''importance'', PFloat (1 / 8))]"

definition plants_note :: pyval where
  "plants_note = PDict [(''id'', PInt 4), (''memory'', PStr ''water the plants''),
                        (''metadata'', PDict [(''k'', PInt 2)]), (''importance'', PFloat (3 / 4))]"

definition notes_store :: "pyval list" where
  "notes_store = [PDict hi_note, bread_note, PDict bank_note, plants_note]"

definition first_note :: pydict where
  "first_note = [(''memory'', PStr ''remember the milk'')]"

definition second_note :: pydict where
  "second_note = [(''memory'', PStr ''call the bank'')]"

definition milk_note :: pydict where
  "milk_note = [(''id'', PInt 5), (''memory'', PStr ''remember the milk'')]"

definition echo_note :: pydict where
  "echo_note = [(''memory_id'', PInt 5), (''memory'', PStr ''hi''),
                (''metadata'', PDict [(''k'', PInt 1)])]"

text \<open>
  Store states for the statistics: a record of importance zero, a record whose
  \<^verbatim>\<open>created_at\<close> is not a date, and a dated record beside a record without
  \<^verbatim>\<open>created_at\<close>; a cutoff and a clock reading.
\<close>

definition zero_importance_store :: "pyval list" where
  "zero_importance_store =
     [PDict [(''id'', PInt 1), (''memory'', PStr ''remember the milk''),
             (''importance'', PFloat 0),
             (''created_at'', PStr ''2024-05-01T00:00:00+00:00'')]]"

definition garbled_store :: "pyval list" where
  "garbled_store =
     [PDict [(''id'', PInt 1), (''memory'', PStr ''remember the milk''),
             (''created_at'', PStr ''unknown'')]]"

definition half_dated_store :: "pyval list" where
  "half_dated_store =
     [PDict [(''id'', PInt 1), (''memory'', PStr ''remember the milk''), (''type'', PStr ''note''),
             (''importance'', PFloat (1 / 4)),
             (''created_at'', PStr ''2024-05-20T00:00:00+00:00'')],
      PDict [(''id'', PInt 2), (''memory'', PStr ''call the bank'')]]"

definition new_year_2024 :: datetime where
  "new_year_2024 = \<lparr>dt_ticks = 63839664000000000, dt_utcoffset = Some 0\<rparr>"

definition june_2024_ticks :: int where
  "june_2024_ticks = 63852796800000000"

section \<open>Facts about the helpers\<close>

declare show_nat.simps [simp del]

lemma reraise_is_api_error: "is_api_error (reraise code prefix e)"
  by (cases e) (simp_all add: reraise_def)

lemma map_of_rev_distinct: "distinct (map fst xs) \<Longrightarrow> map_of (rev xs) = map_of xs"
proof (induction xs)
  case Nil
  then show ?case by simp
next
  case (Cons x xs)
  obtain k v where x: "x = (k, v)" by (cases x)
  from Cons.prems x have fresh: "map_of xs k = None"
    by (simp add: map_of_eq_None_iff)
  from Cons have ih: "map_of (rev xs) = map_of xs" by simp
  show ?case
    using fresh by (auto simp: x ih map_add_def fun_eq_iff split: option.splits)
qed

lemma map_of_dict_set: "map_of (dict_set k v d) = (map_of d)(k \<mapsto> v)"
  by (simp add: dict_set_def update_conv')

lemma map_of_fold_dict_set:
  "map_of (fold (\<lambda>(k, v) d. dict_set k v d) xs acc) = map_of acc ++ map_of (rev xs)"
proof (induction xs arbitrary: acc)
  case Nil
  then show ?case by simp
next
  case (Cons x xs)
  obtain k v where x: "x = (k, v)" by (cases x)
  show ?case
    by (auto simp: x Cons.IH map_of_dict_set fun_eq_iff map_add_def split: option.splits)
qed

lemma map_of_dict_merge:
  assumes "distinct (map fst old)" and "distinct (map fst new)"
  shows "map_of (dict_merge old new) = map_of old ++ map_of new"
  using assms by (simp add: dict_merge_def map_of_fold_dict_set map_of_rev_distinct)

lemma get_memory_recording:
  "get_memory lib (recording st) memory_id user_id agent_id (s, calls) =
     (case get_memory lib st memory_id user_id agent_id s of (r, s') \<Rightarrow> (r, (s', calls)))"
  by (auto simp: get_memory_def recording_def pass_log_def
      split: prod.splits sum.splits option.splits)

lemma st_update_recording:
  "st_update (recording st) memory_id content user_id agent_id metadata (s, calls) =
     (case st_update st memory_id content user_id agent_id metadata s of
        (r, s') \<Rightarrow>
          (r, (s', calls @ [\<lparr>uc_memory_id = memory_id, uc_content = content,
                             uc_user_id = user_id, uc_agent_id = agent_id,
                             uc_metadata = metadata\<rparr>])))"
  by (simp add: recording_def)

lemma update_writes_eq:
  assumes "get_memory lib st memory_id user_id agent_id s = (Inr existing, s1)"
  shows "update_writes lib st memory_id content user_id agent_id metadata s =
           (if content = PNone \<and> metadata = PNone then []
            else (case final_metadata metadata existing of
                    Inl e \<Rightarrow> []
                  | Inr fm \<Rightarrow>
                      [\<lparr>uc_memory_id = memory_id, uc_content = final_content content existing,
                        uc_user_id = user_id, uc_agent_id = agent_id, uc_metadata = fm\<rparr>]))"
  using assms
  by (auto simp: update_writes_def update_memory_def get_memory_recording st_update_recording
      split: prod.splits sum.splits)

lemma batch_item_writes_eq:
  assumes "dict_get update_item ''memory_id'' \<noteq> PNone"
  shows "batch_item_writes lib st user_id agent_id idx update_item s =
           update_writes lib st (dict_get update_item ''memory_id'')
             (dict_get update_item ''content'') user_id agent_id
             (dict_get update_item ''metadata'') s"
  using assms
  by (auto simp: batch_item_writes_def update_writes_def batch_update_item_def update_memory_def
      get_memory_recording st_update_recording Let_def
      split: prod.splits sum.splits)

lemma reraise_of_api: "is_api_error e \<Longrightarrow> reraise code prefix e = e"
  by (simp add: reraise_def)

lemma get_memory_error_is_api:
  "get_memory lib st memory_id user_id agent_id s = (Inl e, s1) \<Longrightarrow> is_api_error e"
  by (auto simp: get_memory_def reraise_is_api_error split: prod.splits sum.splits option.splits if_splits)

lemma final_metadata_both:
  assumes "dict_get existing ''metadata'' = PDict old" and "old \<noteq> []"
  shows "final_metadata (PDict new) existing = Inr (PDict (dict_merge old new))"
  using assms by (simp add: final_metadata_def dict_get_default_def dict_get_def split: option.splits)

lemma final_metadata_existing_only:
  assumes "truthy (dict_get existing ''metadata'')"
  shows "final_metadata PNone existing = Inr (dict_get existing ''metadata'')"
  using assms by (simp add: final_metadata_def)

lemma final_metadata_new_only:
  assumes "\<not> truthy (dict_get existing ''metadata'')"
  shows "final_metadata metadata existing = Inr metadata"
  using assms by (simp add: final_metadata_def)

section \<open>Errors of update_memory\<close>

text \<open>
  Claim C9. \<^verbatim>\<open>update_memory\<close> fetches the record before it looks at its arguments: when
  the store has no record for the identifier (its \<^verbatim>\<open>get\<close> returns \<^verbatim>\<open>None\<close>), the call
  fails with \<^verbatim>\<open>MEMORY_NOT_FOUND\<close>, whatever the content and the metadata are, both
  \<^verbatim>\<open>None\<close> included; the store is left as the fetch left it.
\<close>

theorem update_missing_record_is_not_found:
  assumes "st_get st memory_id user_id agent_id s = (Inr None, s1)"
  shows "update_memory lib st memory_id content user_id agent_id metadata s =
           (Inl (APIError MEMORY_NOT_FOUND
                   (''Memory '' @ py_str lib memory_id @ '' not found'') 404), s1)
         \<and> kind_of (APIError MEMORY_NOT_FOUND
                      (''Memory '' @ py_str lib memory_id @ '' not found'') 404) = NotFound"
  using assms by (simp add: update_memory_def get_memory_def reraise_def)

theorem update_missing_record_is_not_found_witness:
  "st_get ram_store (PInt 42) PNone PNone [PDict [(''id'', PInt 7), (''content'', PStr ''tea'')]]
     = (Inr None, [PDict [(''id'', PInt 7), (''content'', PStr ''tea'')]])
   \<and> update_memory demo_lib ram_store (PInt 42) PNone PNone PNone PNone
        [PDict [(''id'', PInt 7), (''content'', PStr ''tea'')]]
     = (Inl (APIError MEMORY_NOT_FOUND ''Memory 42 not found'' 404),
        [PDict [(''id'', PInt 7), (''content'', PStr ''tea'')]])"
proof -
  have absent:
    "st_get ram_store (PInt 42) PNone PNone
       [PDict [(''id'', PInt 7), (''content'', PStr ''tea'')]]
     = (Inr None, [PDict [(''id'', PInt 7), (''content'', PStr ''tea'')]])"
    by (simp add: ram_store_def ram_find_def has_id_def dict_get_def)
  show ?thesis
    using absent update_missing_record_is_not_found [OF absent, of demo_lib PNone PNone]
    by (simp add: py_str_def demo_lib_def show_nat.simps)
qed

text \<open>
  Claim C3, as the code has it. With content and metadata both \<^verbatim>\<open>None\<close>,
  \<^verbatim>\<open>update_memory\<close> never calls the store's \<^verbatim>\<open>update\<close>. When the fetch of the record
  fails, the call fails with the error of the fetch. When it succeeds, the \<^verbatim>\<open>ValueError\<close>
  raised for the missing arguments is wrapped by the method's handler: the caller gets
  \<^verbatim>\<open>APIError(MEMORY_UPDATE_FAILED, ..., 500)\<close>, not an invalid-argument error.
\<close>

theorem update_without_arguments:
  "update_memory lib st memory_id PNone user_id agent_id PNone s =
     (case get_memory lib st memory_id user_id agent_id s of
        (Inl e, s1) \<Rightarrow> (Inl e, s1)
      | (Inr existing, s1) \<Rightarrow>
          (Inl (APIError MEMORY_UPDATE_FAILED
                  ''Failed to update memory: At least one of content or metadata must be provided''
                  500), s1))
   \<and> update_writes lib st memory_id PNone user_id agent_id PNone s = []"
proof
  show "update_memory lib st memory_id PNone user_id agent_id PNone s =
     (case get_memory lib st memory_id user_id agent_id s of
        (Inl e, s1) \<Rightarrow> (Inl e, s1)
      | (Inr existing, s1) \<Rightarrow>
          (Inl (APIError MEMORY_UPDATE_FAILED
                  ''Failed to update memory: At least one of content or metadata must be provided''
                  500), s1))"
    by (auto simp: update_memory_def reraise_of_api reraise_def
        dest: get_memory_error_is_api split: prod.splits sum.splits)
  show "update_writes lib st memory_id PNone user_id agent_id PNone s = []"
    by (auto simp: update_writes_def update_memory_def get_memory_recording
        split: prod.splits sum.splits)
qed

theorem update_without_arguments_witness:
  "update_memory demo_lib ram_store (PInt 42) PNone PNone PNone PNone tea_store
     = (Inl (APIError MEMORY_NOT_FOUND ''Memory 42 not found'' 404), tea_store)
   \<and> update_writes demo_lib ram_store (PInt 42) PNone PNone PNone PNone tea_store = []"
proof -
  have absent:
    "get_memory demo_lib ram_store (PInt 42) PNone PNone tea_store
     = (Inl (APIError MEMORY_NOT_FOUND ''Memory 42 not found'' 404), tea_store)"
    by (simp add: get_memory_def ram_store_def ram_find_def has_id_def dict_get_def tea_store_def
        py_str_def demo_lib_def show_nat.simps)
  show ?thesis
    using update_without_arguments [of demo_lib ram_store "PInt 42" PNone PNone tea_store]
    by (simp add: absent)
qed

theorem update_without_arguments_counterexample:
  "update_memory demo_lib ram_store (PInt 7) PNone PNone PNone PNone tea_store
     = (Inl (APIError MEMORY_UPDATE_FAILED
               ''Failed to update memory: At least one of content or metadata must be provided''
               500), tea_store)
   \<and> kind_of (APIError MEMORY_UPDATE_FAILED
                ''Failed to update memory: At least one of content or metadata must be provided''
                500) = UpdateFailed
   \<and> UpdateFailed \<noteq> InvalidArgument"
  by (simp add: update_memory_def get_memory_def ram_store_def ram_find_def has_id_def
      dict_get_def tea_store_def reraise_def)

section \<open>The merge rule of an update\<close>

text \<open>
  Claim C1. Let \<^verbatim>\<open>update_memory\<close> fetch the record \<open>existing\<close>. When the record's metadata
  is a non-empty dict and a dict is supplied, the store's \<^verbatim>\<open>update\<close> receives their
  shallow merge: every key of either, with the supplied value on a key of both. When the
  supplied metadata is \<^verbatim>\<open>None\<close> and the record has metadata, it receives the record's;
  when the record has none, it receives the supplied one. The content it receives is the
  supplied content when that is not \<^verbatim>\<open>None\<close>, else the record's. An item of
  \<^verbatim>\<open>batch_update_memories\<close> sends the same call as \<^verbatim>\<open>update_memory\<close> on its fields.
\<close>

theorem update_writes_merged_metadata:
  assumes fetched: "get_memory lib st memory_id user_id agent_id s = (Inr existing, s1)"
      and keys: "distinct (map fst old)" "distinct (map fst new)"
  shows "(dict_get existing ''metadata'' = PDict old \<and> old \<noteq> [] \<and> metadata = PDict new \<longrightarrow>
            (\<exists>merged.
               update_writes lib st memory_id content user_id agent_id metadata s =
                 [\<lparr>uc_memory_id = memory_id,
                   uc_content = (if content \<noteq> PNone then content
                                 else dict_get_default existing ''content'' (PStr [])),
                   uc_user_id = user_id, uc_agent_id = agent_id,
                   uc_metadata = PDict merged\<rparr>]
               \<and> map_of merged = map_of old ++ map_of new))
         \<and> (truthy (dict_get existing ''metadata'') \<and> metadata = PNone \<and> content \<noteq> PNone \<longrightarrow>
              update_writes lib st memory_id content user_id agent_id metadata s =
                [\<lparr>uc_memory_id = memory_id, uc_content = content,
                  uc_user_id = user_id, uc_agent_id = agent_id,
                  uc_metadata = dict_get existing ''metadata''\<rparr>])
         \<and> (\<not> truthy (dict_get existing ''metadata'') \<and> metadata \<noteq> PNone \<longrightarrow>
              update_writes lib st memory_id content user_id agent_id metadata s =
                [\<lparr>uc_memory_id = memory_id,
                  uc_content = (if content \<noteq> PNone then content
                                else dict_get_default existing ''content'' (PStr [])),
                  uc_user_id = user_id, uc_agent_id = agent_id,
                  uc_metadata = metadata\<rparr>])
         \<and> (memory_id \<noteq> PNone \<and> dict_get update_item ''memory_id'' = memory_id
              \<and> dict_get update_item ''content'' = content
              \<and> dict_get update_item ''metadata'' = metadata \<longrightarrow>
              batch_item_writes lib st user_id agent_id idx update_item s =
                update_writes lib st memory_id content user_id agent_id metadata s)"
proof (intro conjI impI)
  assume both: "dict_get existing ''metadata'' = PDict old \<and> old \<noteq> [] \<and> metadata = PDict new"
  then have fm: "final_metadata (PDict new) existing = Inr (PDict (dict_merge old new))"
    by (simp add: final_metadata_both)
  have "update_writes lib st memory_id content user_id agent_id metadata s =
          [\<lparr>uc_memory_id = memory_id,
            uc_content = (if content \<noteq> PNone then content
                          else dict_get_default existing ''content'' (PStr [])),
            uc_user_id = user_id, uc_agent_id = agent_id,
            uc_metadata = PDict (dict_merge old new)\<rparr>]"
    using both by (simp add: update_writes_eq [OF fetched] fm final_content_def)
  moreover have "map_of (dict_merge old new) = map_of old ++ map_of new"
    using keys by (rule map_of_dict_merge)
  ultimately show "\<exists>merged.
               update_writes lib st memory_id content user_id agent_id metadata s =
                 [\<lparr>uc_memory_id = memory_id,
                   uc_content = (if content \<noteq> PNone then content
                                 else dict_get_default existing ''content'' (PStr [])),
                   uc_user_id = user_id, uc_agent_id = agent_id,
                   uc_metadata = PDict merged\<rparr>]
               \<and> map_of merged = map_of old ++ map_of new"
    by blast
next
  assume "truthy (dict_get existing ''metadata'') \<and> metadata = PNone \<and> content \<noteq> PNone"
  then show "update_writes lib st memory_id content user_id agent_id metadata s =
                [\<lparr>uc_memory_id = memory_id, uc_content = content,
                  uc_user_id = user_id, uc_agent_id = agent_id,
                  uc_metadata = dict_get existing ''metadata''\<rparr>]"
    by (simp add: update_writes_eq [OF fetched] final_metadata_existing_only final_content_def)
next
  assume "\<not> truthy (dict_get existing ''metadata'') \<and> metadata \<noteq> PNone"
  then show "update_writes lib st memory_id content user_id agent_id metadata s =
                [\<lparr>uc_memory_id = memory_id,
                  uc_content = (if content \<noteq> PNone then content
                                else dict_get_default existing ''content'' (PStr [])),
                  uc_user_id = user_id, uc_agent_id = agent_id,
                  uc_metadata = metadata\<rparr>]"
    by (simp add: update_writes_eq [OF fetched] final_metadata_new_only final_content_def)
next
  assume "memory_id \<noteq> PNone \<and> dict_get update_item ''memory_id'' = memory_id
              \<and> dict_get update_item ''content'' = content
              \<and> dict_get update_item ''metadata'' = metadata"
  then show "batch_item_writes lib st user_id agent_id idx update_item s =
                update_writes lib st memory_id content user_id agent_id metadata s"
    using batch_item_writes_eq [of update_item lib st user_id agent_id idx s] by auto
qed

theorem update_writes_merged_metadata_witness:
  "get_memory demo_lib ram_store (PInt 7) PNone PNone tea_store
     = (Inr [(''id'', PInt 7), (''content'', PStr ''tea''),
             (''metadata'', PDict [(''a'', PInt 1), (''b'', PInt 2)])], tea_store)
   \<and> distinct (map fst [(''a'', PInt 1), (''b'', PInt 2)])
   \<and> distinct (map fst [(''a'', PInt 9), (''c'', PInt 3)])
   \<and> update_writes demo_lib ram_store (PInt 7) PNone PNone PNone
        (PDict [(''a'', PInt 9), (''c'', PInt 3)]) tea_store
     = [\<lparr>uc_memory_id = PInt 7, uc_content = PStr ''tea'', uc_user_id = PNone,
         uc_agent_id = PNone,
         uc_metadata = PDict [(''a'', PInt 9), (''b'', PInt 2), (''c'', PInt 3)]\<rparr>]
   \<and> update_writes demo_lib ram_store (PInt 7) (PStr ''chai'') PNone PNone PNone tea_store
     = [\<lparr>uc_memory_id = PInt 7, uc_content = PStr ''chai'', uc_user_id = PNone,
         uc_agent_id = PNone, uc_metadata = PDict [(''a'', PInt 1), (''b'', PInt 2)]\<rparr>]
   \<and> update_writes demo_lib ram_store (PInt 8) PNone PNone PNone
        (PDict [(''x'', PInt 1)]) tea_store
     = [\<lparr>uc_memory_id = PInt 8, uc_content = PStr ''milk'', uc_user_id = PNone,
         uc_agent_id = PNone, uc_metadata = PDict [(''x'', PInt 1)]\<rparr>]
   \<and> batch_item_writes demo_lib ram_store PNone PNone 0
        [(''memory_id'', PInt 7), (''metadata'', PDict [(''a'', PInt 9), (''c'', PInt 3)])]
        tea_store
     = [\<lparr>uc_memory_id = PInt 7, uc_content = PStr ''tea'', uc_user_id = PNone,
         uc_agent_id = PNone,
         uc_metadata = PDict [(''a'', PInt 9), (''b'', PInt 2), (''c'', PInt 3)]\<rparr>]"
proof -
  let ?r = "[(''id'', PInt 7), (''content'', PStr ''tea''),
             (''metadata'', PDict [(''a'', PInt 1), (''b'', PInt 2)])]"
  let ?old = "[(''a'', PInt 1), (''b'', PInt 2)]"
  let ?new = "[(''a'', PInt 9), (''c'', PInt 3)]"
  let ?item = "[(''memory_id'', PInt 7), (''metadata'', PDict ?new)]"
  have fetched: "get_memory demo_lib ram_store (PInt 7) PNone PNone tea_store = (Inr ?r, tea_store)"
    by (simp add: get_memory_def ram_store_def ram_find_def has_id_def dict_get_def tea_store_def)
  have old: "distinct (map fst ?old)" and new: "distinct (map fst ?new)"
    by simp_all
  have metadata: "dict_get ?r ''metadata'' = PDict ?old"
    and content: "dict_get_default ?r ''content'' (PStr []) = PStr ''tea''"
    and item: "dict_get ?item ''memory_id'' = PInt 7" "dict_get ?item ''content'' = PNone"
      "dict_get ?item ''metadata'' = PDict ?new"
    by (simp_all add: dict_get_def dict_get_default_def)
  have merged: "dict_merge ?old ?new = [(''a'', PInt 9), (''b'', PInt 2), (''c'', PInt 3)]"
    by (simp add: dict_merge_def dict_set_def)
  have both:
    "update_writes demo_lib ram_store (PInt 7) PNone PNone PNone (PDict ?new) tea_store
     = [\<lparr>uc_memory_id = PInt 7, uc_content = PStr ''tea'', uc_user_id = PNone,
         uc_agent_id = PNone,
         uc_metadata = PDict [(''a'', PInt 9), (''b'', PInt 2), (''c'', PInt 3)]\<rparr>]"
    by (simp add: update_writes_eq [OF fetched] final_metadata_both [OF metadata] merged
        final_content_def content)
  have existing_only:
    "update_writes demo_lib ram_store (PInt 7) (PStr ''chai'') PNone PNone PNone tea_store
     = [\<lparr>uc_memory_id = PInt 7, uc_content = PStr ''chai'', uc_user_id = PNone,
         uc_agent_id = PNone, uc_metadata = PDict ?old\<rparr>]"
    by (simp add: update_writes_eq [OF fetched] final_metadata_existing_only metadata
        final_content_def)
  have fetched_milk:
    "get_memory demo_lib ram_store (PInt 8) PNone PNone tea_store
     = (Inr [(''id'', PInt 8), (''content'', PStr ''milk'')], tea_store)"
    by (simp add: get_memory_def ram_store_def ram_find_def has_id_def dict_get_def tea_store_def)
  from update_writes_merged_metadata [OF fetched_milk old new,
      where metadata = "PDict [(''x'', PInt 1)]" and content = PNone]
  have new_only:
    "update_writes demo_lib ram_store (PInt 8) PNone PNone PNone
        (PDict [(''x'', PInt 1)]) tea_store
     = [\<lparr>uc_memory_id = PInt 8, uc_content = PStr ''milk'', uc_user_id = PNone,
         uc_agent_id = PNone, uc_metadata = PDict [(''x'', PInt 1)]\<rparr>]"
    by (simp add: dict_get_def dict_get_default_def)
  from update_writes_merged_metadata [OF fetched old new,
      where metadata = "PDict ?new" and content = PNone and update_item = ?item and idx = 0]
  have "batch_item_writes demo_lib ram_store PNone PNone 0 ?item tea_store =
          update_writes demo_lib ram_store (PInt 7) PNone PNone PNone (PDict ?new) tea_store"
    using item by simp
  with fetched both existing_only new_only show ?thesis
    by simp
qed

section \<open>create_memory and list_memories on degenerate store answers\<close>

text \<open>
  Claim C7. When the store's \<^verbatim>\<open>add\<close> returns an empty \<^verbatim>\<open>results\<close> list (or no
  \<^verbatim>\<open>results\<close> at all), \<^verbatim>\<open>create_memory\<close> returns the empty list and raises nothing.
\<close>

theorem create_memory_empty_results:
  assumes "st_add st req s = (Inr result, s1)"
      and "dict_get_default result ''results'' (PList []) = PList []"
  shows "create_memory lib st req s = (Inr [], s1)"
  using assms by (simp add: create_memory_def)

theorem create_memory_empty_results_witness:
  "st_add ram_store
     \<lparr>add_messages = PStr ''tea'', add_user_id = PStr ''u1'', add_agent_id = PNone,
      add_run_id = PNone, add_metadata = PNone, add_filters = PNone, add_scope = PNone,
      add_memory_type = PNone, add_infer = True\<rparr>
     [PDict [(''id'', PInt 7), (''content'', PStr ''tea'')]]
     = (Inr [(''results'', PList [])], [PDict [(''id'', PInt 7), (''content'', PStr ''tea'')]])
   \<and> dict_get_default [(''results'', PList [])] ''results'' (PList []) = PList []
   \<and> create_memory demo_lib ram_store
        \<lparr>add_messages = PStr ''tea'', add_user_id = PStr ''u1'', add_agent_id = PNone,
         add_run_id = PNone, add_metadata = PNone, add_filters = PNone, add_scope = PNone,
         add_memory_type = PNone, add_infer = True\<rparr>
        [PDict [(''id'', PInt 7), (''content'', PStr ''tea'')]]
     = (Inr [], [PDict [(''id'', PInt 7), (''content'', PStr ''tea'')]])"
proof -
  let ?req = "\<lparr>add_messages = PStr ''tea'', add_user_id = PStr ''u1'', add_agent_id = PNone,
      add_run_id = PNone, add_metadata = PNone, add_filters = PNone, add_scope = PNone,
      add_memory_type = PNone, add_infer = True\<rparr>"
  let ?s = "[PDict [(''id'', PInt 7), (''content'', PStr ''tea'')]]"
  have duplicate: "st_add ram_store ?req ?s = (Inr [(''results'', PList [])], ?s)"
    by (simp add: ram_store_def ram_add_def has_content_def dict_get_def)
  have empty: "dict_get_default [(''results'', PList [])] ''results'' (PList []) = PList []"
    by (simp add: dict_get_default_def)
  show ?thesis
    using duplicate empty create_memory_empty_results [OF duplicate empty, of demo_lib]
    by simp
qed

text \<open>
  Claim C8. \<^verbatim>\<open>list_memories\<close> returns the entries of the store's \<^verbatim>\<open>results\<close> list that
  are dicts, in their order, and drops every other entry without failing; a response
  \<^verbatim>\<open>[dict, non-dict, dict]\<close> gives a sequence of two.
\<close>

theorem list_memories_keeps_the_dicts:
  assumes "st_get_all st
             \<lparr>ga_user_id = user_id, ga_agent_id = agent_id, ga_limit = limit,
              ga_offset = Some offset, ga_sort_by = Some sort_by, ga_order = Some order\<rparr> s
           = (Inr result, s1)"
      and "dict_get_default result ''results'' (PList []) = PList entries"
  shows "list_memories st user_id agent_id limit offset sort_by order s
           = (Inr (filter is_dict entries), s1)"
  using assms by (simp add: list_memories_def py_iter_def)

theorem list_memories_keeps_the_dicts_witness:
  "st_get_all ram_store
     \<lparr>ga_user_id = PStr ''u1'', ga_agent_id = PNone, ga_limit = 100,
      ga_offset = Some 0, ga_sort_by = Some PNone, ga_order = Some ''desc''\<rparr>
     [PDict [(''id'', PInt 1)], PStr ''junk'', PDict [(''id'', PInt 2)]]
     = (Inr [(''results'', PList [PDict [(''id'', PInt 1)], PStr ''junk'', PDict [(''id'', PInt 2)]])],
        [PDict [(''id'', PInt 1)], PStr ''junk'', PDict [(''id'', PInt 2)]])
   \<and> list_memories ram_store (PStr ''u1'') PNone 100 0 PNone ''desc''
        [PDict [(''id'', PInt 1)], PStr ''junk'', PDict [(''id'', PInt 2)]]
     = (Inr [PDict [(''id'', PInt 1)], PDict [(''id'', PInt 2)]],
        [PDict [(''id'', PInt 1)], PStr ''junk'', PDict [(''id'', PInt 2)]])"
proof -
  let ?s = "[PDict [(''id'', PInt 1)], PStr ''junk'', PDict [(''id'', PInt 2)]]"
  have answer:
    "st_get_all ram_store
       \<lparr>ga_user_id = PStr ''u1'', ga_agent_id = PNone, ga_limit = 100,
        ga_offset = Some 0, ga_sort_by = Some PNone, ga_order = Some ''desc''\<rparr> ?s
     = (Inr [(''results'', PList ?s)], ?s)"
    by (simp add: ram_store_def)
  have entries: "dict_get_default [(''results'', PList ?s)] ''results'' (PList []) = PList ?s"
    by (simp add: dict_get_default_def)
  show ?thesis
    using answer list_memories_keeps_the_dicts [OF answer entries]
    by simp
qed

section \<open>Batch results\<close>

lemma delete_memory_error_is_api:
  "delete_memory lib st memory_id user_id agent_id s = (Inl e, s1) \<Longrightarrow> is_api_error e"
  by (auto simp: delete_memory_def reraise_is_api_error
      split: prod.splits sum.splits if_splits)

lemma bulk_delete_loop_accounts:
  "\<exists>d f s'. bulk_delete_loop lib st user_id agent_id ids deleted failed s = (Inr (d, f), s')
      \<and> length d + length f = length deleted + length failed + length ids
      \<and> mset d + mset (map entry_memory_id f) =
          mset deleted + mset (map entry_memory_id failed) + mset ids"
proof (induction ids arbitrary: deleted failed s)
  case Nil
  then show ?case by simp
next
  case (Cons memory_id ids)
  obtain r s1 where run: "delete_memory lib st memory_id user_id agent_id s = (r, s1)"
    by (cases "delete_memory lib st memory_id user_id agent_id s")
  show ?case
  proof (cases r)
    case (Inr ok)
    from Cons.IH [of "deleted @ [memory_id]" failed s1]
    show ?thesis by (auto simp: run Inr)
  next
    case (Inl e)
    with run have "is_api_error e" by (auto dest: delete_memory_error_is_api)
    then obtain c m sc where e: "e = APIError c m sc" by (cases e) auto
    from Cons.IH [of deleted "failed @ [PDict [(''memory_id'', memory_id), (''error'', PStr m)]]" s1]
    show ?thesis by (auto simp: run Inl e entry_memory_id_def dict_get_def)
  qed
qed

lemma batch_create_item_index:
  "batch_create_item st user_id agent_id run_id infer idx memory_item s = (Inr entry, s1)
   \<Longrightarrow> entry_index entry = PInt (int idx)"
  by (auto simp: batch_create_item_def Let_def entry_index_def dict_get_def
      split: prod.splits sum.splits if_splits)

lemma batch_create_loop_accounts:
  "batch_create_loop st user_id agent_id run_id infer idx items created failed s = ((c, f), s')
   \<Longrightarrow> length c + length f = length created + length failed + length items
      \<and> mset (map entry_index c) + mset (map entry_index f) =
          mset (map entry_index created) + mset (map entry_index failed)
          + mset (map (\<lambda>i. PInt (int i)) [idx..<idx + length items])"
proof (induction items arbitrary: idx created failed s)
  case Nil
  then show ?case by simp
next
  case (Cons memory_item items)
  obtain r s1 where run:
    "batch_create_item st user_id agent_id run_id infer idx memory_item s = (r, s1)"
    by (cases "batch_create_item st user_id agent_id run_id infer idx memory_item s")
  have range: "[idx..<Suc (idx + length items)] = idx # [Suc idx..<Suc (idx + length items)]"
    by (rule upt_conv_Cons) simp
  show ?case
  proof (cases r)
    case (Inr entry)
    with run have "entry_index entry = PInt (int idx)"
      by (auto dest: batch_create_item_index)
    with Cons.IH [of "Suc idx" "created @ [entry]" failed s1] Cons.prems
    show ?thesis by (simp add: run Inr range del: upt_Suc mset_upt)
  next
    case (Inl e)
    with Cons.IH [of "Suc idx" created _ s1] Cons.prems
    show ?thesis by (simp add: run Inl range entry_index_def dict_get_def del: upt_Suc mset_upt)
  qed
qed


lemma batch_update_item_index:
  "batch_update_item lib st user_id agent_id idx update_item s = (Inr entry, s1)
   \<Longrightarrow> entry_index entry = PInt (int idx)"
  by (auto simp: batch_update_item_def Let_def entry_index_def dict_get_def
      split: prod.splits sum.splits if_splits)

lemma batch_update_loop_accounts:
  "batch_update_loop lib st user_id agent_id idx items updated failed s = ((c, f), s')
   \<Longrightarrow> length c + length f = length updated + length failed + length items
      \<and> mset (map entry_index c) + mset (map entry_index f) =
          mset (map entry_index updated) + mset (map entry_index failed)
          + mset (map (\<lambda>i. PInt (int i)) [idx..<idx + length items])"
proof (induction items arbitrary: idx updated failed s)
  case Nil
  then show ?case by simp
next
  case (Cons update_item items)
  obtain r s1 where run:
    "batch_update_item lib st user_id agent_id idx update_item s = (r, s1)"
    by (cases "batch_update_item lib st user_id agent_id idx update_item s")
  have range: "[idx..<Suc (idx + length items)] = idx # [Suc idx..<Suc (idx + length items)]"
    by (rule upt_conv_Cons) simp
  show ?case
  proof (cases r)
    case (Inr entry)
    with run have "entry_index entry = PInt (int idx)"
      by (auto dest: batch_update_item_index)
    with Cons.IH [of "Suc idx" "updated @ [entry]" failed s1] Cons.prems
    show ?thesis by (simp add: run Inr range del: upt_Suc mset_upt)
  next
    case (Inl e)
    with Cons.IH [of "Suc idx" updated _ s1] Cons.prems
    show ?thesis by (simp add: run Inl range entry_index_def dict_get_def del: upt_Suc mset_upt)
  qed
qed

lemmas ram_simps =
  ram_store_def ram_find_def ram_add_def ram_update_def has_id_def has_content_def
  tea_store_def dict_get_def dict_get_default_def dict_has_def dict_set_def
  get_memory_def reraise_def py_str_def demo_lib_def show_nat.simps Let_def

lemma upt_0_2: "[0..<2] = [0, Suc 0]"
  by (simp add: numeral_2_eq_2)

lemma upt_0_3: "[0..<3] = [0, Suc 0, Suc (Suc 0)]"
  by (simp add: numeral_3_eq_3)

text \<open>
  Claim C2, as the code has it. Each of the three batch operations handles every item and
  returns counts that add up to the number of items. \<^verbatim>\<open>batch_create_memories\<close> and
  \<^verbatim>\<open>batch_update_memories\<close> tag every entry with the item's index, and every index below
  the number of items appears in exactly one of the two lists.
  \<^verbatim>\<open>bulk_delete_memories\<close> never raises; its lists carry memory ids, not indices: each
  id of the input goes to exactly one of \<^verbatim>\<open>deleted\<close> and \<^verbatim>\<open>failed\<close>, as often as it was
  given, so an id given twice can be in both.
\<close>

theorem batch_results_account_for_every_item:
  "(case bulk_delete_memories lib st memory_ids user_id agent_id s of
      (Inr r, s') \<Rightarrow>
        bd_total r = length memory_ids
        \<and> bd_deleted_count r = length (bd_deleted r)
        \<and> bd_failed_count r = length (bd_failed r)
        \<and> bd_deleted_count r + bd_failed_count r = length memory_ids
        \<and> mset (bd_deleted r) + mset (map entry_memory_id (bd_failed r)) = mset memory_ids
    | (Inl e, s') \<Rightarrow> False)
   \<and> (case batch_create_memories store_c memories user_id agent_id run_id infer state_c of
        (r, s') \<Rightarrow>
          bc_total r = length memories
          \<and> bc_created_count r = length (bc_created r)
          \<and> bc_failed_count r = length (bc_failed r)
          \<and> bc_created_count r + bc_failed_count r = length memories
          \<and> index_partition (length memories) (bc_created r) (bc_failed r))
   \<and> (case batch_update_memories lib store_u updates user_id agent_id state_u of
        (r, s') \<Rightarrow>
          bu_total r = length updates
          \<and> bu_updated_count r = length (bu_updated r)
          \<and> bu_failed_count r = length (bu_failed r)
          \<and> bu_updated_count r + bu_failed_count r = length updates
          \<and> index_partition (length updates) (bu_updated r) (bu_failed r))"
proof (intro conjI)
  from bulk_delete_loop_accounts [of lib st user_id agent_id memory_ids "[]" "[]" s]
  show "case bulk_delete_memories lib st memory_ids user_id agent_id s of
      (Inr r, s') \<Rightarrow>
        bd_total r = length memory_ids
        \<and> bd_deleted_count r = length (bd_deleted r)
        \<and> bd_failed_count r = length (bd_failed r)
        \<and> bd_deleted_count r + bd_failed_count r = length memory_ids
        \<and> mset (bd_deleted r) + mset (map entry_memory_id (bd_failed r)) = mset memory_ids
    | (Inl e, s') \<Rightarrow> False"
    by (auto simp: bulk_delete_memories_def)
next
  obtain c f s' where run:
    "batch_create_loop store_c user_id agent_id run_id infer 0 memories [] [] state_c = ((c, f), s')"
    by (metis surj_pair)
  from batch_create_loop_accounts [OF run]
  show "case batch_create_memories store_c memories user_id agent_id run_id infer state_c of
        (r, s') \<Rightarrow>
          bc_total r = length memories
          \<and> bc_created_count r = length (bc_created r)
          \<and> bc_failed_count r = length (bc_failed r)
          \<and> bc_created_count r + bc_failed_count r = length memories
          \<and> index_partition (length memories) (bc_created r) (bc_failed r)"
    by (simp add: batch_create_memories_def run index_partition_def del: mset_upt)
next
  obtain c f s' where run:
    "batch_update_loop lib store_u user_id agent_id 0 updates [] [] state_u = ((c, f), s')"
    by (metis surj_pair)
  from batch_update_loop_accounts [OF run]
  show "case batch_update_memories lib store_u updates user_id agent_id state_u of
        (r, s') \<Rightarrow>
          bu_total r = length updates
          \<and> bu_updated_count r = length (bu_updated r)
          \<and> bu_failed_count r = length (bu_failed r)
          \<and> bu_updated_count r + bu_failed_count r = length updates
          \<and> index_partition (length updates) (bu_updated r) (bu_failed r)"
    by (simp add: batch_update_memories_def run index_partition_def del: mset_upt)
qed


theorem batch_results_account_for_every_item_witness:
  "fst (bulk_delete_memories demo_lib ram_store [PInt 7, PInt 42, PInt 8] PNone PNone tea_store)
     = Inr \<lparr>bd_deleted = [PInt 7, PInt 8],
            bd_failed = [PDict [(''memory_id'', PInt 42),
                                (''error'', PStr ''Memory 42 not found'')]],
            bd_total = 3, bd_deleted_count = 2, bd_failed_count = 1\<rparr>
   \<and> fst (batch_create_memories ram_store
             [[(''content'', PStr ''coffee'')], [(''metadata'', PDict [])],
              [(''content'', PStr ''tea'')]] PNone PNone PNone True tea_store)
     = \<lparr>bc_created = [PDict [(''index'', PInt 0), (''memory_id'', PInt 3),
                               (''content'', PStr ''coffee'')]],
        bc_failed = [PDict [(''index'', PInt 1), (''content'', PStr ''N/A''),
                            (''error'', PStr ''Memory content is required'')],
                     PDict [(''index'', PInt 2), (''content'', PStr ''tea''),
                            (''error'', PStr ''Failed to extract memory_id from result'')]],
        bc_total = 3, bc_created_count = 1, bc_failed_count = 2\<rparr>
   \<and> index_partition 3
        [PDict [(''index'', PInt 0), (''memory_id'', PInt 3), (''content'', PStr ''coffee'')]]
        [PDict [(''index'', PInt 1), (''content'', PStr ''N/A''),
                (''error'', PStr ''Memory content is required'')],
         PDict [(''index'', PInt 2), (''content'', PStr ''tea''),
                (''error'', PStr ''Failed to extract memory_id from result'')]]
   \<and> fst (batch_update_memories demo_lib ram_store
             [[(''memory_id'', PInt 7), (''content'', PStr ''chai'')],
              [(''content'', PStr ''x'')],
              [(''memory_id'', PInt 42), (''content'', PStr ''x'')]] PNone PNone tea_store)
     = \<lparr>bu_updated = [PDict [(''index'', PInt 0), (''memory_id'', PInt 7)]],
        bu_failed = [PDict [(''index'', PInt 1), (''memory_id'', PNone),
                            (''error'', PStr ''memory_id is required for each update'')],
                     PDict [(''index'', PInt 2), (''memory_id'', PInt 42),
                            (''error'', PStr ''Memory 42 not found'')]],
        bu_total = 3, bu_updated_count = 1, bu_failed_count = 2\<rparr>"
proof -
  have deleted:
    "bulk_delete_memories demo_lib ram_store [PInt 7, PInt 42, PInt 8] PNone PNone tea_store
     = (Inr \<lparr>bd_deleted = [PInt 7, PInt 8],
            bd_failed = [PDict [(''memory_id'', PInt 42),
                                (''error'', PStr ''Memory 42 not found'')]],
            bd_total = 3, bd_deleted_count = 2, bd_failed_count = 1\<rparr>, [])"
    by (simp add: bulk_delete_memories_def delete_memory_def ram_simps)
  have created:
    "batch_create_memories ram_store
             [[(''content'', PStr ''coffee'')], [(''metadata'', PDict [])],
              [(''content'', PStr ''tea'')]] PNone PNone PNone True tea_store
     = (\<lparr>bc_created = [PDict [(''index'', PInt 0), (''memory_id'', PInt 3),
                               (''content'', PStr ''coffee'')]],
        bc_failed = [PDict [(''index'', PInt 1), (''content'', PStr ''N/A''),
                            (''error'', PStr ''Memory content is required'')],
                     PDict [(''index'', PInt 2), (''content'', PStr ''tea''),
                            (''error'', PStr ''Failed to extract memory_id from result'')]],
        bc_total = 3, bc_created_count = 1, bc_failed_count = 2\<rparr>,
        tea_store @ [PDict [(''id'', PInt 3), (''content'', PStr ''coffee''),
                            (''metadata'', PNone)]])"
    by (simp add: batch_create_memories_def batch_create_item_def extract_memory_id_def
        py_len_def py_first_def ram_simps)
  have updated:
    "fst (batch_update_memories demo_lib ram_store
             [[(''memory_id'', PInt 7), (''content'', PStr ''chai'')],
              [(''content'', PStr ''x'')],
              [(''memory_id'', PInt 42), (''content'', PStr ''x'')]] PNone PNone tea_store)
     = \<lparr>bu_updated = [PDict [(''index'', PInt 0), (''memory_id'', PInt 7)]],
        bu_failed = [PDict [(''index'', PInt 1), (''memory_id'', PNone),
                            (''error'', PStr ''memory_id is required for each update'')],
                     PDict [(''index'', PInt 2), (''memory_id'', PInt 42),
                            (''error'', PStr ''Memory 42 not found'')]],
        bu_total = 3, bu_updated_count = 1, bu_failed_count = 2\<rparr>"
    by (simp add: batch_update_memories_def batch_update_item_def final_metadata_def
        final_content_def ram_simps)
  from batch_results_account_for_every_item
    [where store_c = ram_store and state_c = tea_store and run_id = PNone and infer = True
       and user_id = PNone and agent_id = PNone
       and memories = "[[(''content'', PStr ''coffee'')], [(''metadata'', PDict [])],
                        [(''content'', PStr ''tea'')]]"
       and lib = demo_lib and st = ram_store and s = tea_store
       and memory_ids = "[PInt 7, PInt 42, PInt 8]"
       and store_u = ram_store and state_u = tea_store
       and updates = "[[(''memory_id'', PInt 7), (''content'', PStr ''chai'')],
                       [(''content'', PStr ''x'')],
                       [(''memory_id'', PInt 42), (''content'', PStr ''x'')]]"]
  have "index_partition 3
        [PDict [(''index'', PInt 0), (''memory_id'', PInt 3), (''content'', PStr ''coffee'')]]
        [PDict [(''index'', PInt 1), (''content'', PStr ''N/A''),
                (''error'', PStr ''Memory content is required'')],
         PDict [(''index'', PInt 2), (''content'', PStr ''tea''),
                (''error'', PStr ''Failed to extract memory_id from result'')]]"
    by (simp add: created numeral_3_eq_3)
  with deleted created updated show ?thesis by simp
qed

lemma no_index_in_bulk_delete:
  "\<not> index_partition 2 [PInt 7]
       [PDict [(''memory_id'', PInt 7), (''error'', PStr ''Memory 7 not found'')]]"
proof
  assume "index_partition 2 [PInt 7]
       [PDict [(''memory_id'', PInt 7), (''error'', PStr ''Memory 7 not found'')]]"
  then have "mset [PNone, PNone] = mset [PInt 0, PInt 1]"
    by (simp add: index_partition_def entry_index_def dict_get_def upt_0_2 del: mset_upt)
  then have "set [PNone, PNone] = set [PInt 0, PInt 1]"
    by (rule mset_eq_setD)
  then show False by simp
qed

theorem bulk_delete_index_counterexample:
  "fst (bulk_delete_memories demo_lib ram_store [PInt 7, PInt 7] PNone PNone tea_store)
     = Inr \<lparr>bd_deleted = [PInt 7],
            bd_failed = [PDict [(''memory_id'', PInt 7),
                                (''error'', PStr ''Memory 7 not found'')]],
            bd_total = 2, bd_deleted_count = 1, bd_failed_count = 1\<rparr>
   \<and> \<not> index_partition 2 [PInt 7]
         [PDict [(''memory_id'', PInt 7), (''error'', PStr ''Memory 7 not found'')]]
   \<and> PInt 7 \<in> set [PInt 7]
   \<and> PInt 7 \<in> set (map entry_memory_id
                       [PDict [(''memory_id'', PInt 7), (''error'', PStr ''Memory 7 not found'')]])"
  using no_index_in_bulk_delete
  by (simp add: bulk_delete_memories_def delete_memory_def ram_simps entry_memory_id_def)


section \<open>Rounding to a double\<close>

lemma pow2_powi: "pow2 k = 2 powi k"
  by (simp add: pow2_def power_int_def power_one_over inverse_eq_divide)

lemma pow2_pos: "0 < pow2 k"
  by (simp add: pow2_def)

lemma pow2_add: "pow2 (a + b) = pow2 a * pow2 b"
  by (simp add: pow2_powi power_int_add)

lemma pow2_diff: "pow2 (a - b) = pow2 a / pow2 b"
  by (simp add: pow2_powi power_int_diff)

lemma pow2_less_iff: "pow2 a < pow2 b \<longleftrightarrow> a < b"
proof
  assume less: "pow2 a < pow2 b"
  show "a < b"
  proof (rule ccontr)
    assume "\<not> a < b"
    then have "b \<le> a" by simp
    then have "pow2 b \<le> pow2 a"
      unfolding pow2_powi by (rule power_int_increasing) simp
    with less show False by simp
  qed
next
  assume "a < b"
  then show "pow2 a < pow2 b"
    unfolding pow2_powi by (rule power_int_strict_increasing) simp
qed

lemma pow2_le_iff: "pow2 a \<le> pow2 b \<longleftrightarrow> a \<le> b"
  using pow2_less_iff [of b a] by (auto simp: not_less [symmetric])

lemma pow2_of_int: "0 \<le> k \<Longrightarrow> pow2 k = of_int (2 ^ nat k)"
  by (simp add: pow2_def)

lemma bitlen_pow2_bounds:
  assumes "0 < a"
  shows "pow2 (bitlen a - 1) \<le> of_int a" and "of_int a < pow2 (bitlen a)"
proof -
  from assms have ge1: "1 \<le> bitlen a"
    by (auto simp: bitlen_alt_def)
  note b = bitlen_bounds [OF assms]
  from b have "(of_int (2 ^ nat (bitlen a - 1)) :: rat) \<le> of_int a"
    by (simp only: of_int_le_iff)
  then show "pow2 (bitlen a - 1) \<le> of_int a"
    using ge1 by (simp add: pow2_of_int)
  from b have "(of_int a :: rat) < of_int (2 ^ nat (bitlen a))"
    by (simp only: of_int_less_iff)
  then show "of_int a < pow2 (bitlen a)"
    using ge1 by (simp add: pow2_of_int)
qed

text \<open>\<open>floor_log2 x\<close> is the exponent of the leading bit of a positive \<open>x\<close>.\<close>

lemma floor_log2_bounds:
  assumes "0 < x"
  shows "pow2 (floor_log2 x) \<le> x \<and> x < pow2 (floor_log2 x + 1)"
proof -
  obtain a b where q: "quotient_of x = (a, b)"
    by (cases "quotient_of x")
  have b: "0 < b" by (rule quotient_of_denom_pos [OF q])
  have x: "x = of_int a / of_int b" by (rule quotient_of_div [OF q])
  have a: "0 < a" using assms b x by (simp add: zero_less_divide_iff)
  let ?k = "bitlen a - bitlen b"
  note ba = bitlen_pow2_bounds [OF a]
  note bb = bitlen_pow2_bounds [OF b]
  have "x * pow2 (bitlen b - 1) \<le> x * of_int b"
    using bb(1) assms by simp
  also have "\<dots> = of_int a" using b x by simp
  also have "\<dots> < pow2 (bitlen a)" by (rule ba(2))
  finally have "x < pow2 (bitlen a) / pow2 (bitlen b - 1)"
    using pow2_pos [of "bitlen b - 1"] by (simp add: pos_less_divide_eq)
  also have "\<dots> = pow2 (?k + 1)"
    using pow2_diff [of "bitlen a" "bitlen b - 1"] by (simp add: algebra_simps)
  finally have up: "x < pow2 (?k + 1)" .
  have "pow2 (bitlen a - 1) \<le> of_int a" by (rule ba(1))
  also have "\<dots> = x * of_int b" using b x by simp
  also have "\<dots> \<le> x * pow2 (bitlen b)"
    using bb(2) assms by simp
  finally have "pow2 (bitlen a - 1) / pow2 (bitlen b) \<le> x"
    using pow2_pos [of "bitlen b"] by (simp add: pos_divide_le_eq)
  moreover have "pow2 (bitlen a - 1) / pow2 (bitlen b) = pow2 (?k - 1)"
    using pow2_diff [of "bitlen a - 1" "bitlen b"] by (simp add: algebra_simps)
  ultimately have lo: "pow2 (?k - 1) \<le> x" by simp
  show ?thesis
  proof (cases "pow2 ?k \<le> x")
    case True
    then have "floor_log2 x = ?k" by (simp add: floor_log2_def q)
    with True up show ?thesis by simp
  next
    case False
    then have "floor_log2 x = ?k - 1" by (simp add: floor_log2_def q)
    with False lo show ?thesis by simp
  qed
qed

lemma floor_log2_eq:
  assumes "pow2 k \<le> x" and "x < pow2 (k + 1)"
  shows "floor_log2 x = k"
proof -
  have "0 < x" using pow2_pos assms(1) by (rule less_le_trans)
  note b = floor_log2_bounds [OF this]
  from b assms(2) have "pow2 (floor_log2 x) < pow2 (k + 1)" by simp
  then have "floor_log2 x < k + 1" by (simp add: pow2_less_iff)
  moreover from b assms(1) have "pow2 k < pow2 (floor_log2 x + 1)" by simp
  then have "k < floor_log2 x + 1" by (simp add: pow2_less_iff)
  ultimately show ?thesis by simp
qed

lemma floor_rat_numeral: "\<lfloor>numeral a / numeral b :: rat\<rfloor> = numeral a div numeral b"
  using floor_divide_of_int_eq [of "numeral a" "numeral b", where ?'a = rat] by simp

lemma round_half_even_of_int: "round_half_even (of_int n) = n"
  by (simp add: round_half_even_def)

lemma round_half_even_bounds:
  assumes "0 \<le> q" and "q \<le> of_int n"
  shows "0 \<le> round_half_even q \<and> round_half_even q \<le> n"
proof -
  have lo: "0 \<le> \<lfloor>q\<rfloor>" using assms(1) by simp
  have hi: "\<lfloor>q\<rfloor> \<le> n" using assms(2) by (simp add: floor_le_iff)
  show ?thesis
  proof (cases "\<lfloor>q\<rfloor> = n")
    case True
    then have "q - of_int \<lfloor>q\<rfloor> \<le> 0" using assms(2) by simp
    then show ?thesis using lo True by (simp add: round_half_even_def Let_def)
  next
    case False
    with hi have "\<lfloor>q\<rfloor> + 1 \<le> n" by simp
    then show ?thesis using lo hi by (simp add: round_half_even_def Let_def)
  qed
qed

text \<open>Rounding keeps a number of the unit interval in the unit interval.\<close>

lemma round_double_unit:
  assumes "0 \<le> x" and "x \<le> 1"
  shows "0 \<le> round_double x \<and> round_double x \<le> 1"
proof (cases "x = 0")
  case True
  then show ?thesis by (simp add: round_double_def)
next
  case False
  with assms have pos: "0 < x" by simp
  note b = floor_log2_bounds [OF pos]
  from b assms(2) have "pow2 (floor_log2 x) \<le> pow2 0" by (simp add: pow2_def)
  then have fl: "floor_log2 x \<le> 0" by (simp only: pow2_le_iff)
  define q where "q = max (floor_log2 x - 52) (- 1074)"
  have q: "q \<le> 0" using fl by (simp add: q_def)
  define n :: int where "n = 2 ^ nat (- q)"
  have inv: "pow2 q * of_int n = 1"
    using q by (simp add: pow2_def n_def)
  have pq: "0 < pow2 q" by (rule pow2_pos)
  have "x / pow2 q \<le> 1 / pow2 q"
    using assms(2) pq by (simp add: divide_right_mono)
  also have "1 / pow2 q = of_int n"
    using inv pq by (simp add: field_simps)
  finally have hi: "x / pow2 q \<le> of_int n" .
  have lo: "0 \<le> x / pow2 q" using assms(1) pq by simp
  note r = round_half_even_bounds [OF lo hi]
  have rd: "round_double x = of_int (round_half_even (x / pow2 q)) * pow2 q"
    using pos by (simp add: round_double_def q_def Let_def)
  have "of_int (round_half_even (x / pow2 q)) * pow2 q \<le> of_int n * pow2 q"
    using r pq by (simp add: mult_right_mono)
  also have "\<dots> = 1" using inv by (simp add: mult.commute)
  finally have "round_double x \<le> 1" by (simp add: rd)
  moreover have "0 \<le> round_double x"
    using r pq by (simp add: rd)
  ultimately show ?thesis by simp
qed

text \<open>
  A number with at most 53 significant bits and no bit below the least one of the format
  is a double: rounding leaves it as it is.
\<close>

lemma round_double_dyadic:
  assumes "\<bar>m\<bar> < 2 ^ 53" and "- 1074 \<le> e"
  shows "round_double (of_int m * pow2 e) = of_int m * pow2 e"
proof (cases "m = 0")
  case True
  then show ?thesis by (simp add: round_double_def)
next
  case False
  let ?x = "of_int m * pow2 e :: rat"
  have pe: "0 < pow2 e" by (rule pow2_pos)
  have nz: "?x \<noteq> 0" using False pe by simp
  have abs: "\<bar>?x\<bar> = of_int \<bar>m\<bar> * pow2 e"
    using pe by (simp add: abs_mult)
  have pos: "0 < \<bar>?x\<bar>" using nz by simp
  note b = floor_log2_bounds [OF pos]
  have p53: "(of_int (2 ^ 53) :: rat) = pow2 53"
    by (simp add: pow2_def)
  have "(of_int \<bar>m\<bar> :: rat) < of_int (2 ^ 53)"
    using assms(1) by (simp only: of_int_less_iff)
  then have "\<bar>?x\<bar> < of_int (2 ^ 53) * pow2 e"
    unfolding abs using pe by (simp only: mult_strict_right_mono)
  also have "\<dots> = pow2 (53 + e)"
    unfolding p53 pow2_add ..
  finally have "pow2 (floor_log2 \<bar>?x\<bar>) < pow2 (53 + e)"
    using b by simp
  then have fl: "floor_log2 \<bar>?x\<bar> < 53 + e" by (simp only: pow2_less_iff)
  define q where "q = max (floor_log2 \<bar>?x\<bar> - 52) (- 1074)"
  have q: "q \<le> e" using fl assms(2) by (simp add: q_def)
  have "?x / pow2 q = of_int m * pow2 (e - q)"
    by (simp add: pow2_diff)
  also have "\<dots> = of_int (m * 2 ^ nat (e - q))"
    using q by (simp add: pow2_of_int)
  finally have quot: "?x / pow2 q = of_int (m * 2 ^ nat (e - q))" .
  have "round_double ?x = of_int (round_half_even (?x / pow2 q)) * pow2 q"
    using nz unfolding round_double_def q_def Let_def by (simp only: if_False)
  also have "\<dots> = (?x / pow2 q) * pow2 q"
    unfolding quot round_half_even_of_int ..
  also have "\<dots> = ?x" using pow2_pos [of q] by simp
  finally show ?thesis .
qed

lemma is_double_dyadic:
  assumes "\<bar>m\<bar> < 2 ^ 53" and "- 1074 \<le> e" and "e \<le> 971"
  shows "is_double (of_int m * pow2 e)"
proof -
  have pe: "0 < pow2 e" by (rule pow2_pos)
  from assms(1) have "\<bar>m\<bar> \<le> 2 ^ 53 - 1" by simp
  then have m: "(of_int \<bar>m\<bar> :: rat) \<le> of_int (2 ^ 53 - 1)"
    by (simp only: of_int_le_iff)
  have "pow2 e \<le> pow2 971" using assms(3) by (simp only: pow2_le_iff)
  also have "pow2 971 = 2 ^ 971" unfolding pow2_def by simp
  finally have e: "pow2 e \<le> 2 ^ 971" .
  have "\<bar>of_int m * pow2 e :: rat\<bar> = of_int \<bar>m\<bar> * pow2 e"
    using pe by (simp add: abs_mult)
  also have "\<dots> \<le> of_int (2 ^ 53 - 1) * 2 ^ 971"
    using m e pe by (intro mult_mono) simp_all
  also have "\<dots> = double_max" by (simp add: double_max_def)
  finally show ?thesis
    using round_double_dyadic [OF assms(1,2)] by (simp add: is_double_def)
qed

lemma one_le_double_max: "1 \<le> double_max"
proof -
  have "(1::rat) * 1 \<le> (2 ^ 53 - 1) * 2 ^ 971"
    by (rule mult_mono) simp_all
  then show ?thesis by (simp add: double_max_def)
qed

lemma to_flt_unit:
  assumes "0 \<le> x" and "x \<le> 1"
  shows "to_flt x = Finite (round_double x)"
  using round_double_unit [OF assms] one_le_double_max
  by (simp add: to_flt_def Let_def)

lemma int_to_float_small:
  assumes "\<bar>i\<bar> < 2 ^ 53"
  shows "int_to_float i = Inr (of_int i)"
proof -
  have rd: "round_double (of_int i) = of_int i"
    using round_double_dyadic [of i 0] assms by (simp add: pow2_def)
  from assms have "\<bar>i\<bar> \<le> 2 ^ 53 - 1" by simp
  then have "(of_int \<bar>i\<bar> :: rat) \<le> of_int (2 ^ 53 - 1)"
    by (simp only: of_int_le_iff)
  then have "(of_int \<bar>i\<bar> :: rat) * 1 \<le> (2 ^ 53 - 1) * 2 ^ 971"
    by (intro mult_mono) simp_all
  then have "\<bar>of_int i :: rat\<bar> \<le> double_max"
    by (simp add: double_max_def)
  then show ?thesis
    by (simp add: int_to_float_def rd Let_def)
qed

lemma int_truediv_unit:
  assumes "0 \<le> a" and "a \<le> b" and "0 < b"
  shows "int_truediv a b = Inr (round_double (of_int a / of_int b))"
proof -
  have "0 \<le> (of_int a / of_int b :: rat)" and "(of_int a / of_int b :: rat) \<le> 1"
    using assms by simp_all
  from round_double_unit [OF this] one_le_double_max assms(3) show ?thesis
    by (simp add: int_truediv_def Let_def)
qed

lemma py_round4_unit:
  assumes "0 \<le> x" and "x \<le> 1"
  shows "0 \<le> py_round4 x \<and> py_round4 x \<le> 1
       \<and> (\<exists>k. 0 \<le> k \<and> k \<le> 10000 \<and> py_round4 x = round_double (of_int k / 10000))"
proof -
  have "0 \<le> x * 10000" using assms by simp
  moreover have "x * 10000 \<le> of_int 10000" using assms by simp
  ultimately have k: "0 \<le> round_half_even (x * 10000) \<and> round_half_even (x * 10000) \<le> 10000"
    by (rule round_half_even_bounds)
  then have "0 \<le> (of_int (round_half_even (x * 10000)) / 10000 :: rat)"
    and "(of_int (round_half_even (x * 10000)) / 10000 :: rat) \<le> 1"
    by simp_all
  from round_double_unit [OF this] k show ?thesis
    unfolding py_round4_def by blast
qed

text \<open>The floats of the examples are doubles, and rounding leaves them as they are.\<close>

lemma example_floats:
  "is_double 0" "is_double (1 / 2)" "is_double (1 / 4)" "is_double (1 / 8)" "is_double (3 / 4)"
  using is_double_dyadic [of 0 0] is_double_dyadic [of 1 "- 1"] is_double_dyadic [of 1 "- 2"]
    is_double_dyadic [of 1 "- 3"] is_double_dyadic [of 3 "- 2"]
  by (simp_all add: pow2_def)

lemma round_double_values:
  "round_double 0 = 0" "round_double 1 = 1" "round_double (1 / 2) = 1 / 2"
  "round_double (1 / 4) = 1 / 4" "round_double (3 / 4) = 3 / 4" "round_double (3 / 8) = 3 / 8"
  using round_double_dyadic [of 0 0] round_double_dyadic [of 1 0] round_double_dyadic [of 1 "- 1"]
    round_double_dyadic [of 1 "- 2"] round_double_dyadic [of 3 "- 2"]
    round_double_dyadic [of 3 "- 3"]
  by (simp_all add: pow2_def)

lemma to_flt_values:
  "to_flt (1 / 2) = Finite (1 / 2)" "to_flt (1 / 4) = Finite (1 / 4)"
  "to_flt (3 / 4) = Finite (3 / 4)" "to_flt (3 / 8) = Finite (3 / 8)"
  by (simp_all add: to_flt_unit round_double_values)

lemma int_truediv_values:
  "int_truediv 1 1 = Inr 1" "int_truediv 1 2 = Inr (1 / 2)" "int_truediv 1 4 = Inr (1 / 4)"
  "int_truediv 2 4 = Inr (1 / 2)" "int_truediv 1 3 = Inr (round_double (1 / 3))"
  by (simp_all add: int_truediv_unit round_double_values)

lemma py_round4_values:
  "py_round4 0 = 0" "py_round4 1 = 1" "py_round4 (1 / 2) = 1 / 2" "py_round4 (1 / 4) = 1 / 4"
  by (simp_all add: py_round4_def round_half_even_def round_double_values)

lemma floor_log2_3_10: "floor_log2 (3 / 10) = - 2"
  by (rule floor_log2_eq) (simp_all add: pow2_def)

lemma round_double_3_10: "round_double (3 / 10) = 5404319552844595 / 18014398509481984"
  by (simp add: round_double_def floor_log2_3_10 pow2_def round_half_even_def Let_def
      floor_rat_numeral)

lemma floor_log2_1_3: "floor_log2 (1 / 3) = - 2"
  by (rule floor_log2_eq) (simp_all add: pow2_def)

lemma round_double_1_3: "round_double (1 / 3) = 6004799503160661 / 18014398509481984"
  by (simp add: round_double_def floor_log2_1_3 pow2_def round_half_even_def Let_def
      floor_rat_numeral)

lemma py_round4_1_3: "py_round4 (round_double (1 / 3)) = round_double (3333 / 10000)"
  by (simp add: py_round4_def round_double_1_3 round_half_even_def Let_def floor_rat_numeral)

text \<open>
  One in 160: the quotient \<^verbatim>\<open>1 / 160\<close> is a double slightly above 0.00625, so
  \<^verbatim>\<open>round(1 / 160, 4)\<close> is 0.0063, where the exact quotient is a tie that would go to
  0.0062.
\<close>

lemma floor_log2_1_160: "floor_log2 (1 / 160) = - 8"
  by (rule floor_log2_eq) (simp_all add: pow2_def)

lemma round_double_1_160: "round_double (1 / 160) = 3602879701896397 / 576460752303423488"
  by (simp add: round_double_def floor_log2_1_160 pow2_def round_half_even_def Let_def
      floor_rat_numeral)

lemma one_in_160_rounds_up:
  "int_truediv 1 160 = Inr (round_double (1 / 160))"
  "py_round4 (round_double (1 / 160)) = round_double (63 / 10000)"
  "round_half_even (1 / 160 * 10000) = 62"
  by (simp_all add: int_truediv_unit py_round4_def round_double_1_160 round_half_even_def Let_def
      floor_rat_numeral)

section \<open>Quality reports\<close>

lemma set_add_cases:
  "set_add memory_id acc = Inr acc' \<Longrightarrow>
     \<exists>k. hash_key memory_id = Inr k
       \<and> acc' = acc\<lparr>qa_low_quality_memories := List.insert k (qa_low_quality_memories acc)\<rparr>"
  by (auto simp: set_add_def split: sum.splits)

lemma quality_step_effect:
  assumes "quality_step lib d acc = Inr acc'"
  shows "qa_missing_metadata acc' = qa_missing_metadata acc + (if missing_metadata d then 1 else 0)
       \<and> qa_empty_content acc' = qa_empty_content acc + (if empty_content lib d then 1 else 0)
       \<and> qa_low_importance acc' =
            qa_low_importance acc + (if low_importance lib d = Inr True then 1 else 0)
       \<and> Inr ` set (qa_low_quality_memories acc') =
            Inr ` set (qa_low_quality_memories acc)
            \<union> (if triggers lib d then {quality_id d} else {})
       \<and> (distinct (qa_low_quality_memories acc) \<longrightarrow> distinct (qa_low_quality_memories acc'))"
  using assms
  by (auto simp: quality_step_def Let_def triggers_def quality_id_def
      dest!: set_add_cases split: sum.splits if_splits)

lemma flagged_keys_Cons:
  "flagged_keys lib (PDict d # ms) =
     (if triggers lib d then [quality_id d] else []) @ flagged_keys lib ms"
  by (simp add: flagged_keys_def)

lemma flagged_keys_append:
  "flagged_keys lib (xs @ ys) = flagged_keys lib xs @ flagged_keys lib ys"
  by (simp add: flagged_keys_def)

lemma quality_loop_effect:
  assumes "quality_loop lib ms acc = Inr acc'"
  shows "qa_missing_metadata acc' = qa_missing_metadata acc + fires missing_metadata ms
       \<and> qa_empty_content acc' = qa_empty_content acc + fires (empty_content lib) ms
       \<and> qa_low_importance acc' =
            qa_low_importance acc + fires (\<lambda>d. low_importance lib d = Inr True) ms
       \<and> Inr ` set (qa_low_quality_memories acc') =
            Inr ` set (qa_low_quality_memories acc) \<union> set (flagged_keys lib ms)
       \<and> (distinct (qa_low_quality_memories acc) \<longrightarrow> distinct (qa_low_quality_memories acc'))"
  using assms
proof (induction ms arbitrary: acc)
  case Nil
  then show ?case by (simp add: fires_def flagged_keys_def)
next
  case (Cons m ms)
  from Cons.prems obtain d acc1 where m: "m = PDict d"
    and step: "quality_step lib d acc = Inr acc1"
    and rest: "quality_loop lib ms acc1 = Inr acc'"
    by (auto split: pyval.splits sum.splits)
  note s = quality_step_effect [OF step]
  note r = Cons.IH [OF rest]
  have keys: "set (flagged_keys lib (m # ms)) =
                (if triggers lib d then {quality_id d} else {}) \<union> set (flagged_keys lib ms)"
    by (simp add: flagged_keys_Cons m)
  have "Inr ` set (qa_low_quality_memories acc') =
            Inr ` set (qa_low_quality_memories acc) \<union> set (flagged_keys lib (m # ms))"
    using s r unfolding keys by blast
  moreover have "qa_missing_metadata acc' = qa_missing_metadata acc + fires missing_metadata (m # ms)"
    using s r by (simp add: fires_def m)
  moreover have "qa_empty_content acc' = qa_empty_content acc + fires (empty_content lib) (m # ms)"
    using s r by (simp add: fires_def m)
  moreover have "qa_low_importance acc' =
            qa_low_importance acc + fires (\<lambda>d. low_importance lib d = Inr True) (m # ms)"
    using s r by (simp add: fires_def m)
  moreover have "distinct (qa_low_quality_memories acc) \<longrightarrow> distinct (qa_low_quality_memories acc')"
    using s r by blast
  ultimately show ?case by blast
qed

lemma length_flagged_keys: "length (flagged_keys lib ms) = fires (triggers lib) ms"
  by (induction ms) (auto simp: flagged_keys_def fires_def split: pyval.splits)

lemma fires_le_length: "fires criterion ms \<le> length ms"
  by (simp add: fires_def)

lemma flagged_count_le: "length (remdups (flagged_keys lib ms)) \<le> length ms"
  using length_remdups_leq [of "flagged_keys lib ms"] fires_le_length [of "triggers lib" ms]
  by (simp add: length_flagged_keys)

text \<open>
  The report of a non-empty list on which the loop succeeds, in closed form: the division
  of the count by the total cannot fail, the count being at most the total.
\<close>

lemma quality_of_run:
  assumes loop: "quality_loop lib ms
                   \<lparr>qa_missing_metadata = 0, qa_empty_content = 0, qa_low_importance = 0,
                    qa_low_quality_memories = []\<rparr> = Inr acc"
      and nonempty: "ms \<noteq> []"
  shows "quality_of lib ms =
           Inr \<lparr>qr_total_memories = length ms,
                qr_low_quality_count = length (remdups (flagged_keys lib ms)),
                qr_low_quality_ratio =
                  py_round4 (round_double (of_nat (length (remdups (flagged_keys lib ms)))
                                             / of_nat (length ms))),
                qr_quality_criteria =
                  [(''missing_metadata'', fires missing_metadata ms),
                   (''empty_content'', fires (empty_content lib) ms),
                   (''low_importance'', fires (\<lambda>d. low_importance lib d = Inr True) ms)]\<rparr>"
proof -
  note e = quality_loop_effect [OF loop]
  from e have ids: "Inr ` set (qa_low_quality_memories acc) = set (flagged_keys lib ms)"
    and dist: "distinct (qa_low_quality_memories acc)"
    by simp_all
  have "length (qa_low_quality_memories acc) = card (set (qa_low_quality_memories acc))"
    using dist by (simp add: distinct_card)
  also have "\<dots> = card (Inr ` set (qa_low_quality_memories acc) :: (exn + hkey) set)"
    by (simp add: card_image)
  also have "\<dots> = length (remdups (flagged_keys lib ms))"
    by (simp add: ids card_set)
  finally have count: "length (qa_low_quality_memories acc) = length (remdups (flagged_keys lib ms))" .
  let ?c = "length (remdups (flagged_keys lib ms))"
  have "int ?c \<le> int (length ms)" using flagged_count_le [of lib ms] by simp
  moreover have "0 < int (length ms)" using nonempty by simp
  ultimately have "int_truediv (int ?c) (int (length ms))
                   = Inr (round_double (of_int (int ?c) / of_int (int (length ms))))"
    by (intro int_truediv_unit) simp_all
  then have ratio: "int_truediv (int ?c) (int (length ms))
                   = Inr (round_double (of_nat ?c / of_nat (length ms)))"
    by simp
  show ?thesis
    using nonempty e by (simp add: quality_of_def Let_def loop count ratio)
qed

lemma quality_of_effect:
  assumes "quality_of lib ms = Inr r"
  shows "qr_total_memories r = length ms
       \<and> qr_low_quality_count r = length (remdups (flagged_keys lib ms))
       \<and> qr_low_quality_ratio r =
            (if ms = [] then 0
             else py_round4 (round_double (of_nat (qr_low_quality_count r) / of_nat (length ms))))
       \<and> qr_quality_criteria r =
            (if ms = [] then []
             else [(''missing_metadata'', fires missing_metadata ms),
                   (''empty_content'', fires (empty_content lib) ms),
                   (''low_importance'', fires (\<lambda>d. low_importance lib d = Inr True) ms)])"
proof (cases "ms = []")
  case True
  with assms show ?thesis
    by (auto simp: quality_of_def flagged_keys_def)
next
  case False
  from assms False obtain acc where loop: "quality_loop lib ms
       \<lparr>qa_missing_metadata = 0, qa_empty_content = 0, qa_low_importance = 0,
        qa_low_quality_memories = []\<rparr> = Inr acc"
    by (auto simp: quality_of_def Let_def split: sum.splits)
  from quality_of_run [OF loop False] assms False show ?thesis
    by auto
qed

lemma quality_step_succeeds_anywhere:
  "quality_step lib d acc = Inr a \<Longrightarrow> \<exists>a'. quality_step lib d acc' = Inr a'"
  by (auto simp: quality_step_def Let_def set_add_def split: sum.splits if_splits)

lemma quality_loop_succeeds_anywhere:
  "quality_loop lib ms acc = Inr a \<Longrightarrow> \<exists>a'. quality_loop lib ms acc' = Inr a'"
proof (induction ms arbitrary: acc acc' a)
  case Nil
  then show ?case by simp
next
  case (Cons m ms)
  from Cons.prems obtain d acc1 where m: "m = PDict d"
    and step: "quality_step lib d acc = Inr acc1"
    and rest: "quality_loop lib ms acc1 = Inr a"
    by (auto split: pyval.splits sum.splits)
  from quality_step_succeeds_anywhere [OF step, of acc']
  obtain acc1' where step': "quality_step lib d acc' = Inr acc1'" by blast
  from Cons.IH [OF rest, of acc1'] show ?case
    by (simp add: m step')
qed

lemma quality_loop_append:
  "quality_loop lib (xs @ ys) acc =
     (case quality_loop lib xs acc of Inl e \<Rightarrow> Inl e | Inr a \<Rightarrow> quality_loop lib ys a)"
  by (induction xs arbitrary: acc) (auto split: pyval.splits sum.splits)

lemma quality_loop_drop_one:
  assumes "quality_loop lib (xs @ m # zs) acc = Inr a"
  shows "\<exists>a'. quality_loop lib (xs @ zs) acc = Inr a'"
proof -
  from assms obtain a1 where front: "quality_loop lib xs acc = Inr a1"
    and tail_run: "quality_loop lib (m # zs) a1 = Inr a"
    by (auto simp: quality_loop_append split: sum.splits)
  from tail_run obtain a2 where "quality_loop lib zs a2 = Inr a"
    by (auto split: pyval.splits sum.splits)
  from quality_loop_succeeds_anywhere [OF this, of a1]
  show ?thesis by (simp add: quality_loop_append front)
qed

lemma quality_of_drop_one:
  assumes "quality_of lib (xs @ m # zs) = Inr r"
  shows "\<exists>r0. quality_of lib (xs @ zs) = Inr r0"
proof (cases "xs @ zs = []")
  case True
  then show ?thesis by (simp add: quality_of_def)
next
  case False
  from assms obtain a where "quality_loop lib (xs @ m # zs)
       \<lparr>qa_missing_metadata = 0, qa_empty_content = 0, qa_low_importance = 0,
        qa_low_quality_memories = []\<rparr> = Inr a"
    by (auto simp: quality_of_def Let_def split: sum.splits)
  from quality_loop_drop_one [OF this] obtain a' where "quality_loop lib (xs @ zs)
       \<lparr>qa_missing_metadata = 0, qa_empty_content = 0, qa_low_importance = 0,
        qa_low_quality_memories = []\<rparr> = Inr a'"
    by blast
  from quality_of_run [OF this False] show ?thesis
    by blast
qed

lemma analyze_memory_quality_run:
  assumes "analyze_memory_quality lib st user_id agent_id cutoff_date s = (Inr r, s1)"
  shows "\<exists>result all_memories ms.
           st_get_all st
             \<lparr>ga_user_id = user_id, ga_agent_id = agent_id, ga_limit = 10000,
              ga_offset = Some 0, ga_sort_by = None, ga_order = None\<rparr> s = (Inr result, s1)
         \<and> py_iter (dict_get_default result ''results'' (PList [])) = Inr all_memories
         \<and> (case cutoff_date of
               None \<Rightarrow> Inr all_memories
             | Some cutoff \<Rightarrow> filter_by_cutoff lib cutoff all_memories) = Inr ms
         \<and> quality_of lib ms = Inr r"
  using assms
  by (auto simp: analyze_memory_quality_def split: prod.splits sum.splits)

lemmas quality_simps =
  quality_of_def quality_step_def missing_metadata_def empty_content_def low_importance_def
  set_add_def hash_key_def py_or_def dict_get_def dict_get_default_def py_str_def strip_def
  is_space_def Let_def py_float_def py_iter_def
  analyze_memory_quality_def ram_store_def flagged_keys_def fires_def triggers_def
  quality_id_def round_double_3_10 int_truediv_values py_round4_values py_round4_1_3

text \<open>
  Claim C6. A quality report counts the records it analysed, and each criterion's counter
  is the number of records the criterion fires on, whatever else fires on them.
  \<^verbatim>\<open>low_quality_count\<close> is the number of different ids among the records that trigger a
  defect, so a record that triggers several defects adds at most one to it; the store
  gives every record an id of its own, and when the flagged ids are pairwise different
  every record that triggers a defect adds exactly one. \<^verbatim>\<open>low_quality_count\<close> is at most
  \<^verbatim>\<open>total_memories\<close>. \<^verbatim>\<open>low_quality_ratio\<close> is the double of their quotient, rounded to
  four decimals: it is the double nearest to some \<open>k / 10000\<close> with \<open>k\<close> from 0 to 10000,
  and lies between 0 and 1.
\<close>

theorem quality_report_counts:
  assumes "analyze_memory_quality lib st user_id agent_id cutoff_date s = (Inr r, s1)"
  shows "\<exists>result all_memories ms.
           st_get_all st
             \<lparr>ga_user_id = user_id, ga_agent_id = agent_id, ga_limit = 10000,
              ga_offset = Some 0, ga_sort_by = None, ga_order = None\<rparr> s = (Inr result, s1)
         \<and> py_iter (dict_get_default result ''results'' (PList [])) = Inr all_memories
         \<and> (case cutoff_date of
               None \<Rightarrow> Inr all_memories
             | Some cutoff \<Rightarrow> filter_by_cutoff lib cutoff all_memories) = Inr ms
         \<and> qr_total_memories r = length ms
         \<and> qr_low_quality_count r = length (remdups (flagged_keys lib ms))
         \<and> qr_low_quality_count r \<le> fires (triggers lib) ms
         \<and> (distinct (flagged_keys lib ms) \<longrightarrow> qr_low_quality_count r = fires (triggers lib) ms)
         \<and> qr_quality_criteria r =
              (if ms = [] then []
               else [(''missing_metadata'', fires missing_metadata ms),
                     (''empty_content'', fires (empty_content lib) ms),
                     (''low_importance'', fires (\<lambda>d. low_importance lib d = Inr True) ms)])
         \<and> qr_low_quality_count r \<le> qr_total_memories r
         \<and> qr_low_quality_ratio r =
              (if ms = [] then 0
               else py_round4 (round_double (of_nat (qr_low_quality_count r)
                                               / of_nat (qr_total_memories r))))
         \<and> 0 \<le> qr_low_quality_ratio r \<and> qr_low_quality_ratio r \<le> 1
         \<and> (\<exists>k. 0 \<le> k \<and> k \<le> 10000
                \<and> qr_low_quality_ratio r = round_double (of_int k / 10000))"
proof -
  from analyze_memory_quality_run [OF assms] obtain result all_memories ms where
    answer: "st_get_all st
             \<lparr>ga_user_id = user_id, ga_agent_id = agent_id, ga_limit = 10000,
              ga_offset = Some 0, ga_sort_by = None, ga_order = None\<rparr> s = (Inr result, s1)"
    and iter: "py_iter (dict_get_default result ''results'' (PList [])) = Inr all_memories"
    and kept: "(case cutoff_date of
               None \<Rightarrow> Inr all_memories
             | Some cutoff \<Rightarrow> filter_by_cutoff lib cutoff all_memories) = Inr ms"
    and q: "quality_of lib ms = Inr r"
    by blast
  note e = quality_of_effect [OF q]
  have count_le: "qr_low_quality_count r \<le> fires (triggers lib) ms"
    using e length_remdups_leq [of "flagged_keys lib ms"] by (simp add: length_flagged_keys)
  have exact: "distinct (flagged_keys lib ms) \<longrightarrow> qr_low_quality_count r = fires (triggers lib) ms"
    using e by (simp add: distinct_remdups_id length_flagged_keys)
  have le_total: "qr_low_quality_count r \<le> qr_total_memories r"
    using count_le fires_le_length [of "triggers lib" ms] e by simp
  let ?x = "round_double (of_nat (qr_low_quality_count r) / of_nat (qr_total_memories r))"
  have ratio: "qr_low_quality_ratio r = (if ms = [] then 0 else py_round4 ?x)"
    using e by simp
  have "0 \<le> (of_nat (qr_low_quality_count r) / of_nat (qr_total_memories r) :: rat)"
    and "(of_nat (qr_low_quality_count r) / of_nat (qr_total_memories r) :: rat) \<le> 1"
    using le_total by (auto simp: divide_le_eq_1)
  then have "0 \<le> ?x \<and> ?x \<le> 1"
    by (rule round_double_unit)
  then have round4: "0 \<le> py_round4 ?x \<and> py_round4 ?x \<le> 1
       \<and> (\<exists>k. 0 \<le> k \<and> k \<le> 10000 \<and> py_round4 ?x = round_double (of_int k / 10000))"
    using py_round4_unit by blast
  have unit: "0 \<le> qr_low_quality_ratio r \<and> qr_low_quality_ratio r \<le> 1"
    using round4 by (simp add: ratio)
  have grid: "\<exists>k. 0 \<le> k \<and> k \<le> 10000
                \<and> qr_low_quality_ratio r = round_double (of_int k / 10000)"
  proof (cases "ms = []")
    case True
    have "(0::int) \<le> 0 \<and> (0::int) \<le> 10000 \<and> (0::rat) = round_double (of_int 0 / 10000)"
      by (simp add: round_double_values)
    then show ?thesis unfolding ratio using True by auto
  next
    case False
    then show ?thesis using round4 by (simp add: ratio)
  qed
  from answer iter kept e count_le exact le_total ratio unit grid show ?thesis
    by blast
qed

theorem quality_report_counts_witness:
  "analyze_memory_quality demo_lib ram_store PNone PNone None notes_store
     = (Inr \<lparr>qr_total_memories = 4, qr_low_quality_count = 2, qr_low_quality_ratio = 1 / 2,
             qr_quality_criteria = [(''missing_metadata'', 1), (''empty_content'', 1),
                                    (''low_importance'', 1)]\<rparr>, notes_store)
   \<and> flagged_keys demo_lib notes_store = [Inr (KNum 1), Inr (KNum 3)]
   \<and> distinct (flagged_keys demo_lib notes_store)
   \<and> fires (triggers demo_lib) notes_store = 2
   \<and> fires missing_metadata notes_store = 1
   \<and> fires (empty_content demo_lib) notes_store = 1
   \<and> fires (\<lambda>d. low_importance demo_lib d = Inr True) notes_store = 1
   \<and> py_round4 (round_double (2 / 4)) = 1 / 2
   \<and> round_double (5000 / 10000) = 1 / 2"
proof -
  note note_defs = notes_store_def hi_note_def bread_note_def bank_note_def plants_note_def
  have run:
    "analyze_memory_quality demo_lib ram_store PNone PNone None notes_store
     = (Inr \<lparr>qr_total_memories = 4, qr_low_quality_count = 2, qr_low_quality_ratio = 1 / 2,
             qr_quality_criteria = [(''missing_metadata'', 1), (''empty_content'', 1),
                                    (''low_importance'', 1)]\<rparr>, notes_store)"
    by (simp add: note_defs quality_simps)
  have keys: "flagged_keys demo_lib notes_store = [Inr (KNum 1), Inr (KNum 3)]"
    by (simp add: note_defs quality_simps)
  have counts: "fires (triggers demo_lib) notes_store = 2"
    "fires missing_metadata notes_store = 1"
    "fires (empty_content demo_lib) notes_store = 1"
    "fires (\<lambda>d. low_importance demo_lib d = Inr True) notes_store = 1"
    by (simp_all add: note_defs quality_simps)
  have rounded: "py_round4 (round_double (2 / 4)) = 1 / 2" "round_double (5000 / 10000) = 1 / 2"
    by (simp_all add: round_double_values py_round4_values)
  from run keys counts rounded quality_report_counts [OF run] show ?thesis
    by simp
qed

text \<open>
  Claim C10. The flagged records are counted by the value of \<^verbatim>\<open>id\<close>, else of
  \<^verbatim>\<open>memory_id\<close>: \<^verbatim>\<open>low_quality_count\<close> is the number of different such values among the
  records that trigger a defect. Of two records that trigger a defect, the second adds
  nothing when its value is the one of the first (both have none, for one) or of another
  flagged record, and adds one when no other flagged record has its value;
  \<^verbatim>\<open>total_memories\<close> counts both records in either case.
\<close>

theorem shared_id_counts_once:
  assumes "quality_of lib (xs @ PDict d1 # ys @ PDict d2 # zs) = Inr r"
      and "triggers lib d1" and "triggers lib d2"
  shows "\<exists>r0. quality_of lib (xs @ PDict d1 # ys @ zs) = Inr r0
            \<and> qr_total_memories r = Suc (qr_total_memories r0)
            \<and> qr_total_memories r = length xs + length ys + length zs + 2
            \<and> qr_low_quality_count r =
                 length (remdups (flagged_keys lib (xs @ PDict d1 # ys @ PDict d2 # zs)))
            \<and> (quality_id d1 = quality_id d2
                 \<longrightarrow> qr_low_quality_count r = qr_low_quality_count r0)
            \<and> (dict_get d1 ''id'' = PNone \<and> dict_get d1 ''memory_id'' = PNone
                 \<and> dict_get d2 ''id'' = PNone \<and> dict_get d2 ''memory_id'' = PNone
                 \<longrightarrow> qr_low_quality_count r = qr_low_quality_count r0)
            \<and> (quality_id d2 \<in> set (flagged_keys lib (xs @ PDict d1 # ys @ zs))
                 \<longrightarrow> qr_low_quality_count r = qr_low_quality_count r0)
            \<and> (quality_id d2 \<notin> set (flagged_keys lib (xs @ PDict d1 # ys @ zs))
                 \<longrightarrow> qr_low_quality_count r = Suc (qr_low_quality_count r0))"
proof -
  let ?all = "xs @ PDict d1 # ys @ PDict d2 # zs"
  let ?rest = "xs @ PDict d1 # ys @ zs"
  have split: "?all = (xs @ PDict d1 # ys) @ PDict d2 # zs"
    by simp
  from quality_of_drop_one [of lib "xs @ PDict d1 # ys" "PDict d2" zs r] assms(1)
  obtain r0 where r0: "quality_of lib ?rest = Inr r0"
    by auto
  note e = quality_of_effect [OF assms(1)]
  note e0 = quality_of_effect [OF r0]
  have keys: "set (flagged_keys lib ?all) = insert (quality_id d2) (set (flagged_keys lib ?rest))"
    using assms(3) by (auto simp: flagged_keys_append flagged_keys_Cons)
  have first: "quality_id d1 \<in> set (flagged_keys lib ?rest)"
    using assms(2) by (simp add: flagged_keys_append flagged_keys_Cons)
  have count: "qr_low_quality_count r = card (set (flagged_keys lib ?all))"
    and count0: "qr_low_quality_count r0 = card (set (flagged_keys lib ?rest))"
    using e e0 by (simp_all add: length_remdups_card_conv)
  have known: "quality_id d2 \<in> set (flagged_keys lib ?rest)
                 \<longrightarrow> qr_low_quality_count r = qr_low_quality_count r0"
    by (simp add: count count0 keys insert_absorb)
  have new: "quality_id d2 \<notin> set (flagged_keys lib ?rest)
                 \<longrightarrow> qr_low_quality_count r = Suc (qr_low_quality_count r0)"
    by (simp add: count count0 keys)
  have same: "quality_id d1 = quality_id d2
                 \<longrightarrow> qr_low_quality_count r = qr_low_quality_count r0"
    using first known by auto
  have none: "dict_get d1 ''id'' = PNone \<and> dict_get d1 ''memory_id'' = PNone
                 \<and> dict_get d2 ''id'' = PNone \<and> dict_get d2 ''memory_id'' = PNone
                 \<longrightarrow> qr_low_quality_count r = qr_low_quality_count r0"
    using same by (simp add: quality_id_def)
  from r0 e e0 known new same none show ?thesis
    by simp
qed

theorem shared_id_counts_once_witness:
  "quality_of demo_lib ([] @ PDict first_note # [bread_note] @ PDict second_note # [plants_note])
     = Inr \<lparr>qr_total_memories = 4, qr_low_quality_count = 1, qr_low_quality_ratio = 1 / 4,
            qr_quality_criteria = [(''missing_metadata'', 2), (''empty_content'', 0),
                                   (''low_importance'', 0)]\<rparr>
   \<and> quality_of demo_lib ([] @ PDict first_note # [bread_note] @ [plants_note])
     = Inr \<lparr>qr_total_memories = 3, qr_low_quality_count = 1,
            qr_low_quality_ratio = round_double (3333 / 10000),
            qr_quality_criteria = [(''missing_metadata'', 1), (''empty_content'', 0),
                                   (''low_importance'', 0)]\<rparr>
   \<and> triggers demo_lib first_note \<and> triggers demo_lib second_note
   \<and> quality_id first_note = Inr KNone \<and> quality_id second_note = Inr KNone
   \<and> quality_of demo_lib ([] @ PDict hi_note # [bread_note] @ PDict bank_note # [plants_note])
     = Inr \<lparr>qr_total_memories = 4, qr_low_quality_count = 2, qr_low_quality_ratio = 1 / 2,
            qr_quality_criteria = [(''missing_metadata'', 1), (''empty_content'', 1),
                                   (''low_importance'', 1)]\<rparr>
   \<and> quality_of demo_lib ([] @ PDict hi_note # [bread_note] @ [plants_note])
     = Inr \<lparr>qr_total_memories = 3, qr_low_quality_count = 1,
            qr_low_quality_ratio = round_double (3333 / 10000),
            qr_quality_criteria = [(''missing_metadata'', 1), (''empty_content'', 1),
                                   (''low_importance'', 0)]\<rparr>
   \<and> triggers demo_lib hi_note \<and> triggers demo_lib bank_note
   \<and> quality_id hi_note = Inr (KNum 1) \<and> quality_id bank_note = Inr (KNum 3)
   \<and> flagged_keys demo_lib ([] @ PDict hi_note # [bread_note] @ [plants_note]) = [Inr (KNum 1)]
   \<and> quality_of demo_lib ([] @ PDict milk_note # [] @ PDict echo_note # [])
     = Inr \<lparr>qr_total_memories = 2, qr_low_quality_count = 1, qr_low_quality_ratio = 1 / 2,
            qr_quality_criteria = [(''missing_metadata'', 1), (''empty_content'', 1),
                                   (''low_importance'', 0)]\<rparr>
   \<and> quality_of demo_lib ([] @ PDict milk_note # [] @ [])
     = Inr \<lparr>qr_total_memories = 1, qr_low_quality_count = 1, qr_low_quality_ratio = 1,
            qr_quality_criteria = [(''missing_metadata'', 1), (''empty_content'', 0),
                                   (''low_importance'', 0)]\<rparr>
   \<and> triggers demo_lib milk_note \<and> triggers demo_lib echo_note
   \<and> quality_id milk_note = Inr (KNum 5) \<and> quality_id echo_note = Inr (KNum 5)"
proof -
  note note_defs = first_note_def second_note_def hi_note_def bread_note_def bank_note_def
    plants_note_def milk_note_def echo_note_def
  have no_id:
    "quality_of demo_lib ([] @ PDict first_note # [bread_note] @ PDict second_note # [plants_note])
     = Inr \<lparr>qr_total_memories = 4, qr_low_quality_count = 1, qr_low_quality_ratio = 1 / 4,
            qr_quality_criteria = [(''missing_metadata'', 2), (''empty_content'', 0),
                                   (''low_importance'', 0)]\<rparr>"
    by (simp add: note_defs quality_simps)
  have no_id_rest:
    "quality_of demo_lib ([] @ PDict first_note # [bread_note] @ [plants_note])
     = Inr \<lparr>qr_total_memories = 3, qr_low_quality_count = 1,
            qr_low_quality_ratio = round_double (3333 / 10000),
            qr_quality_criteria = [(''missing_metadata'', 1), (''empty_content'', 0),
                                   (''low_importance'', 0)]\<rparr>"
    by (simp add: note_defs quality_simps)
  have no_id_facts: "triggers demo_lib first_note" "triggers demo_lib second_note"
    "quality_id first_note = Inr KNone" "quality_id second_note = Inr KNone"
    "dict_get first_note ''id'' = PNone" "dict_get first_note ''memory_id'' = PNone"
    "dict_get second_note ''id'' = PNone" "dict_get second_note ''memory_id'' = PNone"
    by (simp_all add: note_defs quality_simps)
  have own_id:
    "quality_of demo_lib ([] @ PDict hi_note # [bread_note] @ PDict bank_note # [plants_note])
     = Inr \<lparr>qr_total_memories = 4, qr_low_quality_count = 2, qr_low_quality_ratio = 1 / 2,
            qr_quality_criteria = [(''missing_metadata'', 1), (''empty_content'', 1),
                                   (''low_importance'', 1)]\<rparr>"
    by (simp add: note_defs quality_simps)
  have own_id_rest:
    "quality_of demo_lib ([] @ PDict hi_note # [bread_note] @ [plants_note])
     = Inr \<lparr>qr_total_memories = 3, qr_low_quality_count = 1,
            qr_low_quality_ratio = round_double (3333 / 10000),
            qr_quality_criteria = [(''missing_metadata'', 1), (''empty_content'', 1),
                                   (''low_importance'', 0)]\<rparr>"
    by (simp add: note_defs quality_simps)
  have own_id_facts: "triggers demo_lib hi_note" "triggers demo_lib bank_note"
    "quality_id hi_note = Inr (KNum 1)" "quality_id bank_note = Inr (KNum 3)"
    "flagged_keys demo_lib ([] @ PDict hi_note # [bread_note] @ [plants_note]) = [Inr (KNum 1)]"
    by (simp_all add: note_defs quality_simps)
  have shared:
    "quality_of demo_lib ([] @ PDict milk_note # [] @ PDict echo_note # [])
     = Inr \<lparr>qr_total_memories = 2, qr_low_quality_count = 1, qr_low_quality_ratio = 1 / 2,
            qr_quality_criteria = [(''missing_metadata'', 1), (''empty_content'', 1),
                                   (''low_importance'', 0)]\<rparr>"
    by (simp add: note_defs quality_simps)
  have shared_rest:
    "quality_of demo_lib ([] @ PDict milk_note # [] @ [])
     = Inr \<lparr>qr_total_memories = 1, qr_low_quality_count = 1, qr_low_quality_ratio = 1,
            qr_quality_criteria = [(''missing_metadata'', 1), (''empty_content'', 0),
                                   (''low_importance'', 0)]\<rparr>"
    by (simp add: note_defs quality_simps)
  have shared_facts: "triggers demo_lib milk_note" "triggers demo_lib echo_note"
    "quality_id milk_note = Inr (KNum 5)" "quality_id echo_note = Inr (KNum 5)"
    by (simp_all add: note_defs quality_simps)
  from shared_id_counts_once [OF no_id no_id_facts(1,2)]
    shared_id_counts_once [OF own_id own_id_facts(1,2)]
    shared_id_counts_once [OF shared shared_facts(1,2)]
    no_id no_id_rest no_id_facts own_id own_id_rest own_id_facts shared shared_rest shared_facts
  show ?thesis by simp
qed

section \<open>Recomputed statistics\<close>

text \<open>
  The sentinel of \<^verbatim>\<open>_parse_datetime\<close> is the naive \<^verbatim>\<open>datetime.min\<close>, and the clock of
  \<^verbatim>\<open>_calculate_stats_from_memories\<close> is timezone-aware. A record whose \<^verbatim>\<open>created_at\<close>
  is truthy and does not parse stops the loop at the age computation, whatever the
  library and the other records are; a record whose \<^verbatim>\<open>created_at\<close> is falsy or does not
  parse stops the filter of a timezone-aware cutoff.
\<close>

lemma stats_step_unparseable:
  assumes "truthy (dict_get d ''created_at'')"
      and "dateutil_parse lib (dict_get d ''created_at'') = None"
  shows "\<exists>e. stats_step lib \<lparr>dt_ticks = now_ticks, dt_utcoffset = Some 0\<rparr> d acc = Inl e"
  using assms
  by (auto simp: stats_step_def Let_def parse_datetime_def datetime_min_def dt_sub_days_def
      split: sum.splits)

lemma stats_loop_unparseable:
  assumes "PDict d \<in> set ms"
      and "truthy (dict_get d ''created_at'')"
      and "dateutil_parse lib (dict_get d ''created_at'') = None"
  shows "\<exists>e. stats_loop lib \<lparr>dt_ticks = now_ticks, dt_utcoffset = Some 0\<rparr> ms acc = Inl e"
  using assms(1)
proof (induction ms arbitrary: acc)
  case Nil
  then show ?case by simp
next
  case (Cons m ms)
  show ?case
  proof (cases "m = PDict d")
    case True
    from stats_step_unparseable [OF assms(2,3), of now_ticks acc] show ?thesis
      by (auto simp: True)
  next
    case False
    with Cons.prems have "PDict d \<in> set ms" by simp
    from Cons.IH [OF this] show ?thesis
      by (auto split: pyval.splits sum.splits)
  qed
qed

lemma calculate_stats_unparseable:
  assumes "PDict d \<in> set ms"
      and "truthy (dict_get d ''created_at'')"
      and "dateutil_parse lib (dict_get d ''created_at'') = None"
  shows "\<exists>e. calculate_stats_from_memories lib now_ticks ms = Inl e"
proof -
  from assms(1) have "ms \<noteq> []" by auto
  with stats_loop_unparseable [OF assms, of now_ticks empty_acc] show ?thesis
    by (auto simp: calculate_stats_from_memories_def)
qed

lemma filter_by_cutoff_undated:
  assumes "PDict d \<in> set ms"
      and "\<not> truthy (dict_get d ''created_at'')
           \<or> dateutil_parse lib (dict_get d ''created_at'') = None"
      and "dt_utcoffset cutoff = Some offset"
  shows "\<exists>e. filter_by_cutoff lib cutoff ms = Inl e"
  using assms(1)
proof (induction ms)
  case Nil
  then show ?case by simp
next
  case (Cons m ms)
  show ?case
  proof (cases "m = PDict d")
    case True
    have "parse_datetime lib (dict_get d ''created_at'') = datetime_min"
      using assms(2) by (auto simp: parse_datetime_def)
    then have "\<exists>e. dt_ge (parse_datetime lib (dict_get d ''created_at'')) cutoff = Inl e"
      using assms(3) by (simp add: dt_ge_def datetime_min_def)
    then show ?thesis by (auto simp: True)
  next
    case False
    with Cons.prems have "PDict d \<in> set ms" by simp
    from Cons.IH [OF this] show ?thesis
      by (auto split: pyval.splits sum.splits)
  qed
qed

lemmas stats_simps =
  get_statistics_def ram_store_def py_iter_def dict_get_default_def dict_get_def
  parse_datetime_def datetime_min_def dt_ge_def dt_sub_days_def day_us_def
  calculate_stats_from_memories_def stats_step_def hash_key_def py_or_def py_float_def
  access_entry_def py_gt_zero_def bump_def age_bucket_def empty_acc_def no_ages_def
  top_accessed_def demo_lib_def iso_dates_def Let_def
  float_truediv_def int_to_float_small to_flt_values

text \<open>
  Claim C5, on a record whose \<^verbatim>\<open>created_at\<close> is not a date and on a record without
  one. The claim has such a record counted in \<^verbatim>\<open>total_memories\<close>, \<^verbatim>\<open>by_type\<close> and
  \<^verbatim>\<open>avg_importance\<close> and left out of \<^verbatim>\<open>growth_trend\<close> and \<^verbatim>\<open>age_distribution\<close>, which
  is what \<^verbatim>\<open>_calculate_stats_from_memories\<close> does with the record without
  \<^verbatim>\<open>created_at\<close> of \<open>half_dated_store\<close>. For the record of \<open>garbled_store\<close> the function
  raises \<^verbatim>\<open>TypeError\<close>: the sentinel date is subtracted from the timezone-aware clock.
  So does \<^verbatim>\<open>get_statistics\<close> with the cutoff \<^verbatim>\<open>datetime.min\<close>, which keeps that record;
  under every cutoff it raises or returns the snapshot of no record. On
  \<open>half_dated_store\<close> it raises \<^verbatim>\<open>TypeError\<close> in the filter, with a timezone-aware
  cutoff at the record without \<^verbatim>\<open>created_at\<close> and with a naive cutoff at the dated
  record: under no cutoff does it return a snapshot.
\<close>

theorem unparseable_created_at_raises:
  "calculate_stats_from_memories demo_lib june_2024_ticks garbled_store
     = Inl (PyError TypeError ''cannot subtract offset-naive and offset-aware datetimes'')
   \<and> fst (get_statistics demo_lib ram_store june_2024_ticks PNone PNone (Some datetime_min)
            garbled_store)
     = Inl (PyError TypeError ''cannot subtract offset-naive and offset-aware datetimes'')
   \<and> (\<forall>cutoff.
          fst (get_statistics demo_lib ram_store june_2024_ticks PNone PNone (Some cutoff)
                 garbled_store)
            = Inl (PyError TypeError ''cannot compare offset-naive and offset-aware datetimes'')
        \<or> fst (get_statistics demo_lib ram_store june_2024_ticks PNone PNone (Some cutoff)
                 garbled_store)
            = Inl (PyError TypeError ''cannot subtract offset-naive and offset-aware datetimes'')
        \<or> fst (get_statistics demo_lib ram_store june_2024_ticks PNone PNone (Some cutoff)
                 garbled_store)
            = Inr (Recomputed
                \<lparr>ss_total_memories = 0, ss_by_type = [], ss_avg_importance = Finite 0,
                  ss_top_accessed = [], ss_growth_trend = [],
                  ss_age_distribution = no_ages\<rparr>))
   \<and> calculate_stats_from_memories demo_lib june_2024_ticks half_dated_store
     = Inr \<lparr>ss_total_memories = 2,
            ss_by_type = [(KStr ''note'', 1), (KStr ''unknown'', 1)],
            ss_avg_importance = Finite (3 / 8), ss_top_accessed = [],
            ss_growth_trend = [(''2024-05-20'', 1)],
            ss_age_distribution =
              \<lparr>age_lt_1_day = 0, age_1_7_days = 0, age_7_30_days = 1,
               age_gt_30_days = 0\<rparr>\<rparr>
   \<and> fst (get_statistics demo_lib ram_store june_2024_ticks PNone PNone (Some new_year_2024)
            half_dated_store)
     = Inl (PyError TypeError ''cannot compare offset-naive and offset-aware datetimes'')
   \<and> fst (get_statistics demo_lib ram_store june_2024_ticks PNone PNone (Some datetime_min)
            half_dated_store)
     = Inl (PyError TypeError ''cannot compare offset-naive and offset-aware datetimes'')
   \<and> (\<forall>cutoff. \<exists>e. fst (get_statistics demo_lib ram_store june_2024_ticks PNone PNone
                            (Some cutoff) half_dated_store) = Inl e)"
proof -
  have garbled_every:
    "fst (get_statistics demo_lib ram_store june_2024_ticks PNone PNone (Some cutoff)
            garbled_store)
       = Inl (PyError TypeError ''cannot compare offset-naive and offset-aware datetimes'')
     \<or> fst (get_statistics demo_lib ram_store june_2024_ticks PNone PNone (Some cutoff)
            garbled_store)
       = Inl (PyError TypeError ''cannot subtract offset-naive and offset-aware datetimes'')
     \<or> fst (get_statistics demo_lib ram_store june_2024_ticks PNone PNone (Some cutoff)
            garbled_store)
       = Inr (Recomputed
           \<lparr>ss_total_memories = 0, ss_by_type = [], ss_avg_importance = Finite 0,
             ss_top_accessed = [], ss_growth_trend = [], ss_age_distribution = no_ages\<rparr>)"
    for cutoff
    by (cases "dt_utcoffset cutoff"; cases "dt_ticks cutoff \<le> 0")
      (simp_all add: garbled_store_def june_2024_ticks_def stats_simps)
  have half_dated_every:
    "\<exists>e. fst (get_statistics demo_lib ram_store june_2024_ticks PNone PNone (Some cutoff)
                 half_dated_store) = Inl e"
    for cutoff
    by (cases "dt_utcoffset cutoff")
      (simp_all add: half_dated_store_def june_2024_ticks_def stats_simps)
  have runs:
    "calculate_stats_from_memories demo_lib june_2024_ticks garbled_store
       = Inl (PyError TypeError ''cannot subtract offset-naive and offset-aware datetimes'')"
    "fst (get_statistics demo_lib ram_store june_2024_ticks PNone PNone (Some datetime_min)
            garbled_store)
       = Inl (PyError TypeError ''cannot subtract offset-naive and offset-aware datetimes'')"
    "calculate_stats_from_memories demo_lib june_2024_ticks half_dated_store
       = Inr \<lparr>ss_total_memories = 2,
              ss_by_type = [(KStr ''note'', 1), (KStr ''unknown'', 1)],
              ss_avg_importance = Finite (3 / 8), ss_top_accessed = [],
              ss_growth_trend = [(''2024-05-20'', 1)],
              ss_age_distribution =
                \<lparr>age_lt_1_day = 0, age_1_7_days = 0, age_7_30_days = 1,
                 age_gt_30_days = 0\<rparr>\<rparr>"
    "fst (get_statistics demo_lib ram_store june_2024_ticks PNone PNone (Some new_year_2024)
            half_dated_store)
       = Inl (PyError TypeError ''cannot compare offset-naive and offset-aware datetimes'')"
    "fst (get_statistics demo_lib ram_store june_2024_ticks PNone PNone (Some datetime_min)
            half_dated_store)
       = Inl (PyError TypeError ''cannot compare offset-naive and offset-aware datetimes'')"
    by (simp_all add: garbled_store_def half_dated_store_def june_2024_ticks_def
        new_year_2024_def stats_simps)
  from runs garbled_every half_dated_every show ?thesis
    by blast
qed

text \<open>
  Claim C4, on a record of importance zero. The loop reads the importance as
  \<^verbatim>\<open>m.get("importance") or 0.5\<close>, which takes the default for every falsy value and not
  only for a missing one: a single kept record of importance \<^verbatim>\<open>0.0\<close> gives the average
  \<^verbatim>\<open>0.5\<close>, where the mean of the importance values is \<^verbatim>\<open>0.0\<close>.
\<close>

theorem zero_importance_average:
  "fst (get_statistics demo_lib ram_store june_2024_ticks PNone PNone
          (Some new_year_2024) zero_importance_store)
     = Inr (Recomputed
          \<lparr>ss_total_memories = 1, ss_by_type = [(KStr ''unknown'', 1)],
            ss_avg_importance = Finite (1 / 2), ss_top_accessed = [],
            ss_growth_trend = [(''2024-05-01'', 1)],
            ss_age_distribution =
              \<lparr>age_lt_1_day = 0, age_1_7_days = 0, age_7_30_days = 0,
               age_gt_30_days = 1\<rparr>\<rparr>)"
  by (simp add: zero_importance_store_def june_2024_ticks_def new_year_2024_def stats_simps)

end
